theory Spec2Isabelle
  imports Main "HOL-Library.Stream" "HOL-Library.Sublist"
begin

section \<open>Data model of package httputil\<close>

text \<open>
  Status codes are Go \<open>int\<close>s, durations are \<open>time.Duration\<close> (nanoseconds, signed).
  Instants of the clock are natural numbers of nanoseconds.
\<close>

type_synonym duration = int

text \<open>
  A \<open>context.Context\<close> is represented by the instant at which its \<open>Done\<close> channel
  closes; \<open>None\<close> is a context that is never cancelled.
\<close>

type_synonym ctx_t = "nat option"

definition context_Background :: ctx_t where
  "context_Background = None"

definition ctx_done :: "ctx_t \<Rightarrow> nat \<Rightarrow> bool" where
  "ctx_done c t = (case c of None \<Rightarrow> False | Some tc \<Rightarrow> tc \<le> t)"

text \<open>The parts of \<open>url.URL\<close> the package touches: the scheme, and everything after it.\<close>

record url_t =
  Scheme :: string
  Rest :: string

definition url_String :: "url_t \<Rightarrow> string" where
  "url_String u = (if Scheme u = [] then Rest u else Scheme u @ ''://'' @ Rest u)"

text \<open>Transports and TLS configurations are opaque handles of the caller.\<close>

datatype RoundTripper = CustomTransport nat | HTTPTransport nat

record http_Client =
  Timeout :: duration
  CheckRedirect :: "nat option"
  Transport :: "RoundTripper option"

record request =
  req_id :: nat
  req_Method :: string
  req_URL :: url_t
  req_Header :: "string \<rightharpoonup> string list"
  ContentLength :: int
  req_Body :: "string option"
  req_Ctx :: ctx_t

text \<open>
  A response body is a shared mutable object (\<open>io.ReadCloser\<close>); the response holds its
  address in the store of bodies.
\<close>

record body_t =
  content :: string
  read_error :: "string option"
  drained :: bool
  closes :: nat

record response =
  StatusCode :: int
  resp_Header :: "string \<rightharpoonup> string list"
  Body :: nat
  Request :: request

text \<open>What a round trip delivers before the client wraps it into a response object.\<close>

record raw_response =
  raw_status :: int
  raw_header :: "string \<rightharpoonup> string list"
  raw_body :: string
  raw_read_error :: "string option"

subsection \<open>Errors\<close>

record StatusError =
  Method :: string
  URL :: string
  Status :: int
  Header :: "string \<rightharpoonup> string list"
  ResponseDump :: string

text \<open>
  Error values: \<open>ErrorString\<close> is an error known by its message only (what
  \<open>fmt.Errorf\<close> without \<open>%w\<close> and the libraries return), \<open>NetworkErr\<close> is
  \<open>NetworkError{err}\<close> (it has no \<open>Unwrap\<close> method), and \<open>Wrapper\<close> is an
  error of a caller that implements \<open>Unwrap\<close>.
\<close>

datatype error =
    ErrorString string
  | StatusErr StatusError
  | NetworkErr error
  | Wrapper string error

subsection \<open>The world outside the package\<close>

record APIVersion =
  Type :: string
  Version :: string

text \<open>
  The behaviour of the libraries and of the network is a parameter: \<open>url.Parse\<close>, the
  checks of \<open>http.NewRequest\<close>, the content length it derives from a body, the
  canonical form of a header key, what the \<open>k\<close>-th round trip of a client returns and
  how long it takes, and the registry client's \<open>APIVersions\<close> and \<open>AddResponse\<close>.
\<close>

record env =
  url_Parse :: "string \<Rightarrow> error + url_t"
  validMethod :: "string \<Rightarrow> bool"
  body_length :: "string option \<Rightarrow> int"
  canonical_key :: "string \<Rightarrow> string"
  roundTrip :: "http_Client \<Rightarrow> nat \<Rightarrow> request \<Rightarrow> error + raw_response"
  latency :: "nat \<Rightarrow> nat"
  auth_APIVersions :: "response \<Rightarrow> string \<Rightarrow> APIVersion list"
  AddResponse_error :: "response \<Rightarrow> error option"

text \<open>
  The mutable state: the clock, the number of \<open>client.Do\<close> calls, the store of
  response bodies, the identities of the request objects passed to \<open>client.Do\<close> (in
  order), the number of request objects built, the durations slept, the number of
  \<open>NextBackOff\<close> calls and the number of challenge managers constructed.
\<close>

record world =
  now :: nat
  attempts :: nat
  bodies :: "nat \<Rightarrow> body_t"
  executed :: "nat list"
  built :: nat
  slept :: "duration list"
  consults :: nat
  managers :: nat

section \<open>Error classifier\<close>

definition retryableCodes :: "int set" where
  "retryableCodes = {429, 502, 503, 504}"

definition ioutil_ReadAll :: "nat \<Rightarrow> world \<Rightarrow> (string \<times> string option) \<times> world" where
  "ioutil_ReadAll a st =
     (let b = bodies st a in
      if drained b then (('''', None), st)
      else ((content b, read_error b), st\<lparr>bodies := (bodies st)(a := b\<lparr>drained := True\<rparr>)\<rparr>))"

definition Body_Close :: "nat \<Rightarrow> world \<Rightarrow> world" where
  "Body_Close a st =
     (let b = bodies st a in st\<lparr>bodies := (bodies st)(a := b\<lparr>closes := Suc (closes b)\<rparr>)\<rparr>)"

definition NewStatusError :: "response \<Rightarrow> world \<Rightarrow> StatusError \<times> world" where
  "NewStatusError resp st =
     (let ((respBytes, err), st1) = ioutil_ReadAll (Body resp) st;
          respDump = (case err of
                        None \<Rightarrow> respBytes
                      | Some e \<Rightarrow> ''failed to dump response: '' @ e);
          result = \<lparr>Method = req_Method (Request resp),
                    URL = url_String (req_URL (Request resp)),
                    Status = StatusCode resp,
                    Header = resp_Header resp,
                    ResponseDump = respDump\<rparr>
      in (result, Body_Close (Body resp) st1))"

text \<open>Decimal rendering of an \<open>int\<close>, for the \<open>%d\<close> verb.\<close>

fun itoa_nat :: "nat \<Rightarrow> string" where
  "itoa_nat n =
     (if n < 10 then [''0123456789'' ! n]
      else itoa_nat (n div 10) @ [''0123456789'' ! (n mod 10)])"

declare itoa_nat.simps [simp del]

definition itoa :: "int \<Rightarrow> string" where
  "itoa i = (if i < 0 then CHR ''-'' # itoa_nat (nat (- i)) else itoa_nat (nat i))"

definition StatusError_Error :: "StatusError \<Rightarrow> string" where
  "StatusError_Error e =
     (if ResponseDump e = '''' then Method e @ '' '' @ URL e @ '' '' @ itoa (Status e)
      else Method e @ '' '' @ URL e @ '' '' @ itoa (Status e) @ '': '' @ ResponseDump e)"

fun Error :: "error \<Rightarrow> string" where
  "Error (ErrorString s) = s"
| "Error (StatusErr e) = StatusError_Error e"
| "Error (NetworkErr e) = ''network error: '' @ Error e"
| "Error (Wrapper s e) = s"

text \<open>\<open>fmt.Errorf(pre + "%s", err)\<close>: a plain error carrying the formatted text.\<close>

definition fmt_Errorf :: "string \<Rightarrow> error \<Rightarrow> error" where
  "fmt_Errorf pre err = ErrorString (pre @ Error err)"

text \<open>
  \<open>errors.As(err, &e)\<close> for a target of type \<open>StatusError\<close>, respectively
  \<open>NetworkError\<close>: it walks the \<open>Unwrap\<close> chain and stops at the first error of
  the target type.
\<close>

fun As_StatusError :: "error \<Rightarrow> StatusError option" where
  "As_StatusError (StatusErr e) = Some e"
| "As_StatusError (Wrapper s e) = As_StatusError e"
| "As_StatusError (NetworkErr e) = None"
| "As_StatusError (ErrorString s) = None"

fun As_NetworkError :: "error \<Rightarrow> error option" where
  "As_NetworkError (NetworkErr e) = Some (NetworkErr e)"
| "As_NetworkError (Wrapper s e) = As_NetworkError e"
| "As_NetworkError (StatusErr e) = None"
| "As_NetworkError (ErrorString s) = None"

text \<open>
  The chain of errors that \<open>errors.As\<close> walks: the error, then what its
  \<open>Unwrap\<close> method returns, and so on; only \<open>Wrapper\<close> has that method.
\<close>

fun unwrap_chain :: "error \<Rightarrow> error list" where
  "unwrap_chain (Wrapper s e) = Wrapper s e # unwrap_chain e"
| "unwrap_chain (ErrorString s) = [ErrorString s]"
| "unwrap_chain (StatusErr e) = [StatusErr e]"
| "unwrap_chain (NetworkErr e) = [NetworkErr e]"

definition IsStatus :: "error \<Rightarrow> int \<Rightarrow> bool" where
  "IsStatus err status =
     (case As_StatusError err of Some e \<Rightarrow> Status e = status | None \<Rightarrow> False)"

definition isRetryable :: "int \<Rightarrow> bool" where
  "isRetryable code = (code \<in> retryableCodes)"

definition IsRetryable :: "error \<Rightarrow> bool" where
  "IsRetryable err =
     (case As_StatusError err of Some e \<Rightarrow> isRetryable (Status e) | None \<Rightarrow> False)"

definition IsNetworkError :: "error \<Rightarrow> bool" where
  "IsNetworkError err = (As_NetworkError err \<noteq> None)"

section \<open>Request sender\<close>

text \<open>
  A \<open>backoff.BackOff\<close> object is the stream of the answers its \<open>NextBackOff\<close>
  method gives, one per call; \<open>backoff.Stop\<close> is the duration \<open>-1\<close>.
\<close>

type_synonym backoff_t = "duration stream"

definition backoff_Stop :: duration where
  "backoff_Stop = - 1"

definition StopBackOff :: backoff_t where
  "StopBackOff = sconst backoff_Stop"

definition NextBackOff :: "backoff_t \<Rightarrow> world \<Rightarrow> duration \<times> backoff_t \<times> world" where
  "NextBackOff b st = (shd b, stl b, st\<lparr>consults := Suc (consults st)\<rparr>)"

text \<open>
  \<open>backoff.WithMaxRetries(b, n)\<close> of the backoff library, for \<open>n > 0\<close>: the
  delegate's answers for the first \<open>n\<close> calls, \<open>Stop\<close> from then on.
\<close>

definition WithMaxRetries :: "backoff_t \<Rightarrow> nat \<Rightarrow> backoff_t" where
  "WithMaxRetries b n = stake n b @- sconst backoff_Stop"

text \<open>\<open>time.Sleep\<close> returns at once for a duration that is not positive.\<close>

definition time_Sleep :: "duration \<Rightarrow> world \<Rightarrow> world" where
  "time_Sleep d st = st\<lparr>now := now st + nat d, slept := slept st @ [d]\<rparr>"

record retryOptions =
  backoff :: backoff_t
  extraCodes :: "int \<rightharpoonup> bool"

text \<open>
  \<open>headers\<close> is a Go map; the list holds its entries in the order in which the
  \<open>range\<close> loop of \<open>newRequest\<close> visits them.
\<close>

record sendOptions =
  body :: "string option"
  timeout :: duration
  acceptedCodes :: "int \<rightharpoonup> bool"
  headers :: "(string \<times> string) list"
  redirect :: "nat option"
  retry :: retryOptions
  transport :: "RoundTripper option"
  ctx :: ctx_t
  client :: "http_Client option"
  url :: url_t
  httpFallbackDisabled :: bool

type_synonym SendOption = "sendOptions \<Rightarrow> sendOptions"

type_synonym RetryOption = "retryOptions \<Rightarrow> retryOptions"

text \<open>Reading a Go \<open>map[int]bool\<close>: a missing key reads as \<open>false\<close>.\<close>

definition lookup :: "(int \<rightharpoonup> bool) \<Rightarrow> int \<Rightarrow> bool" where
  "lookup m k = (case m k of Some b \<Rightarrow> b | None \<Rightarrow> False)"

definition SendNoop :: SendOption where
  "SendNoop = (\<lambda>opts. opts)"

definition SendBody :: "string \<Rightarrow> SendOption" where
  "SendBody b = (\<lambda>opts. opts\<lparr>body := Some b\<rparr>)"

definition SendTimeout :: "duration \<Rightarrow> SendOption" where
  "SendTimeout t = (\<lambda>opts. opts\<lparr>timeout := t\<rparr>)"

definition SendHeaders :: "(string \<times> string) list \<Rightarrow> SendOption" where
  "SendHeaders hs = (\<lambda>opts. opts\<lparr>headers := hs\<rparr>)"

definition SendAcceptedCodes :: "int list \<Rightarrow> SendOption" where
  "SendAcceptedCodes codes =
     (let m = fold (\<lambda>c m. m(c \<mapsto> True)) codes Map.empty
      in (\<lambda>opts. opts\<lparr>acceptedCodes := m\<rparr>))"

definition SendRedirect :: "nat \<Rightarrow> SendOption" where
  "SendRedirect r = (\<lambda>opts. opts\<lparr>redirect := Some r\<rparr>)"

definition SendClient :: "http_Client \<Rightarrow> SendOption" where
  "SendClient c = (\<lambda>opts. opts\<lparr>client := Some c\<rparr>)"

definition RetryBackoff :: "backoff_t \<Rightarrow> RetryOption" where
  "RetryBackoff b = (\<lambda>r. r\<lparr>backoff := b\<rparr>)"

definition RetryCodes :: "int list \<Rightarrow> RetryOption" where
  "RetryCodes codes = (\<lambda>r. r\<lparr>extraCodes := fold (\<lambda>c m. m(c \<mapsto> True)) codes (extraCodes r)\<rparr>)"

text \<open>
  \<open>SendRetry\<close>: \<open>b\<close> is the stream of answers of the exponential backoff the function
  configures (initial interval 250ms, multiplier 1, at most 30s), which depends on the
  clock and on a random factor.
\<close>

definition SendRetry :: "backoff_t \<Rightarrow> RetryOption list \<Rightarrow> SendOption" where
  "SendRetry b options =
     (let r0 = \<lparr>backoff = WithMaxRetries b 3, extraCodes = Map.empty\<rparr>;
          r = fold (\<lambda>opt r. opt r) options r0
      in (\<lambda>opts. opts\<lparr>retry := r\<rparr>))"

definition DisableHTTPFallback :: SendOption where
  "DisableHTTPFallback = (\<lambda>opts. opts\<lparr>httpFallbackDisabled := True\<rparr>)"

definition SendTLS :: "nat option \<Rightarrow> SendOption" where
  "SendTLS config =
     (\<lambda>opts. case config of
                None \<Rightarrow> opts
              | Some c \<Rightarrow> opts\<lparr>transport := Some (HTTPTransport c),
                               url := (url opts)\<lparr>Scheme := ''https''\<rparr>\<rparr>)"

definition SendTLSTransport :: "RoundTripper \<Rightarrow> SendOption" where
  "SendTLSTransport tr =
     (\<lambda>opts. opts\<lparr>transport := Some tr, url := (url opts)\<lparr>Scheme := ''https''\<rparr>\<rparr>)"

definition SendTransport :: "RoundTripper \<Rightarrow> SendOption" where
  "SendTransport tr = (\<lambda>opts. opts\<lparr>transport := Some tr\<rparr>)"

definition SendContext :: "ctx_t \<Rightarrow> SendOption" where
  "SendContext c = (\<lambda>opts. opts\<lparr>ctx := c\<rparr>)"

text \<open>The defaults of \<open>Send\<close> and the loop that applies the option mutators in order.\<close>

definition defaultOptions :: "url_t \<Rightarrow> sendOptions" where
  "defaultOptions u =
     \<lparr>body = None,
      timeout = 60 * 1000000000,
      acceptedCodes = [200 \<mapsto> True],
      headers = [],
      redirect = None,
      retry = \<lparr>backoff = StopBackOff, extraCodes = Map.empty\<rparr>,
      transport = None,
      ctx = context_Background,
      client = None,
      url = u,
      httpFallbackDisabled = False\<rparr>"

definition applyOptions :: "SendOption list \<Rightarrow> sendOptions \<Rightarrow> sendOptions" where
  "applyOptions options opts = fold (\<lambda>opt s. opt s) options opts"

text \<open>
  \<open>http.NewRequest\<close>: it refuses an invalid method and a URL that does not parse, and
  otherwise allocates a new request object with the background context.
\<close>

definition http_NewRequest ::
  "env \<Rightarrow> string \<Rightarrow> string \<Rightarrow> string option \<Rightarrow> world \<Rightarrow> (error + request) \<times> world" where
  "http_NewRequest e method urlStr b st =
     (if \<not> validMethod e method
      then (Inl (ErrorString (''net/http: invalid method '' @ method)), st)
      else case url_Parse e urlStr of
             Inl err \<Rightarrow> (Inl err, st)
           | Inr u \<Rightarrow>
               (Inr \<lparr>req_id = built st, req_Method = method, req_URL = u,
                     req_Header = Map.empty, ContentLength = body_length e b,
                     req_Body = b, req_Ctx = context_Background\<rparr>,
                st\<lparr>built := Suc (built st)\<rparr>))"

definition Header_Set :: "env \<Rightarrow> string \<times> string \<Rightarrow> request \<Rightarrow> request" where
  "Header_Set e kv req =
     req\<lparr>req_Header := (req_Header req)(canonical_key e (fst kv) \<mapsto> [snd kv])\<rparr>"

definition newRequest ::
  "env \<Rightarrow> string \<Rightarrow> sendOptions \<Rightarrow> world \<Rightarrow> (error + request) \<times> world" where
  "newRequest e method opts st =
     (case http_NewRequest e method (url_String (url opts)) (body opts) st of
        (Inl err, st1) \<Rightarrow> (Inl (fmt_Errorf ''new request: '' err), st1)
      | (Inr req0, st1) \<Rightarrow>
          (let req1 = req0\<lparr>req_Ctx := ctx opts\<rparr>;
               req2 = (if body opts = None then req1\<lparr>ContentLength := 0\<rparr> else req1);
               req3 = fold (Header_Set e) (headers opts) req2
           in (Inr req3, st1)))"

text \<open>
  \<open>client.Do\<close>, under the contract of net/http: a request whose context is done before
  the round trip would complete fails with the context's error at that instant;
  otherwise the round trip takes its time and returns the transport's error or a
  response whose body is a new object of the store.
\<close>

definition client_Do ::
  "env \<Rightarrow> http_Client \<Rightarrow> request \<Rightarrow> world \<Rightarrow> (error + response) \<times> world" where
  "client_Do e c req st =
     (let k = attempts st;
          t1 = now st + latency e k;
          st0 = st\<lparr>attempts := Suc k, executed := executed st @ [req_id req]\<rparr>
      in if ctx_done (req_Ctx req) t1
         then (Inl (ErrorString ''context canceled''),
               st0\<lparr>now := max (now st) (case req_Ctx req of Some tc \<Rightarrow> tc | None \<Rightarrow> 0)\<rparr>)
         else case roundTrip e c k req of
                Inl err \<Rightarrow> (Inl err, st0\<lparr>now := t1\<rparr>)
              | Inr raw \<Rightarrow>
                  (Inr \<lparr>StatusCode = raw_status raw, resp_Header = raw_header raw,
                        Body = k, Request = req\<rparr>,
                   st0\<lparr>now := t1,
                       bodies := (bodies st)(k := \<lparr>content = raw_body raw,
                                                  read_error = raw_read_error raw,
                                                  drained = False, closes = 0\<rparr>)\<rparr>))"

definition shouldRetry :: "response option \<Rightarrow> sendOptions \<Rightarrow> bool" where
  "shouldRetry resp opts =
     (case resp of
        Some r \<Rightarrow>
          (isRetryable (StatusCode r) \<and> \<not> lookup (acceptedCodes opts) (StatusCode r)) \<or>
          lookup (extraCodes (retry opts)) (StatusCode r)
      | None \<Rightarrow> False)"

text \<open>
  One pass through the body of the \<open>for\<close> loop of \<open>Send\<close>: \<open>Inl\<close> is
  \<open>break\<close> with the values of \<open>resp, err\<close>, \<open>Inr\<close> is \<open>continue\<close> with the
  state of the backoff object.
\<close>

definition send_iter ::
  "env \<Rightarrow> http_Client \<Rightarrow> sendOptions \<Rightarrow> request \<Rightarrow> backoff_t \<Rightarrow> world \<Rightarrow>
   ((error + response) + backoff_t) \<times> world" where
  "send_iter e c opts req bo st =
     (case client_Do e c req st of (r, st1) \<Rightarrow>
        if (case r of Inl err \<Rightarrow> True | Inr resp \<Rightarrow> shouldRetry (Some resp) opts)
        then (case NextBackOff bo st1 of (d, bo', st2) \<Rightarrow>
                if d = backoff_Stop then (Inl r, st2)
                else (Inr bo', time_Sleep d st2))
        else (Inl r, st1))"

partial_function (option) send_loop ::
  "env \<Rightarrow> http_Client \<Rightarrow> sendOptions \<Rightarrow> request \<Rightarrow> backoff_t \<Rightarrow> world \<Rightarrow>
   ((error + response) \<times> world) option" where
  "send_loop e c opts req bo st =
     (case send_iter e c opts req bo st of
        (Inl r, st1) \<Rightarrow> Some (r, st1)
      | (Inr bo', st1) \<Rightarrow> send_loop e c opts req bo' st1)"

text \<open>The client \<open>Send\<close> uses: the override of the options, or one made from them.\<close>

definition clientOf :: "sendOptions \<Rightarrow> http_Client" where
  "clientOf opts =
     (case client opts of
        None \<Rightarrow> \<lparr>Timeout = timeout opts, CheckRedirect = redirect opts,
                  Transport = transport opts\<rparr>
      | Some c \<Rightarrow> c)"

text \<open>\<open>Send\<close>; the result \<open>None\<close> means that the loop never ends.\<close>

definition Send ::
  "env \<Rightarrow> string \<Rightarrow> string \<Rightarrow> SendOption list \<Rightarrow> world \<Rightarrow>
   ((error + response) \<times> world) option" where
  "Send e method rawurl options st =
     (case url_Parse e rawurl of
        Inl err \<Rightarrow> Some (Inl (fmt_Errorf ''parse url: '' err), st)
      | Inr u \<Rightarrow>
          (let opts = applyOptions options (defaultOptions u) in
           case newRequest e method opts st of
             (Inl err, st1) \<Rightarrow> Some (Inl err, st1)
           | (Inr req, st1) \<Rightarrow>
               (case send_loop e (clientOf opts) opts req (backoff (retry opts)) st1 of
                  None \<Rightarrow> None
                | Some (Inl err, st2) \<Rightarrow> Some (Inl (NetworkErr err), st2)
                | Some (Inr resp, st2) \<Rightarrow>
                    if \<not> lookup (acceptedCodes opts) (StatusCode resp)
                    then (case NewStatusError resp st2 of
                            (se, st3) \<Rightarrow> Some (Inl (StatusErr se), st3))
                    else Some (Inr resp, st2))))"

section \<open>Registry security\<close>

definition basePingQuery :: "string \<Rightarrow> string" where
  "basePingQuery addr = ''https://'' @ addr @ ''/v2/''"

definition registryVersionHeader :: string where
  "registryVersionHeader = ''Docker-Distribution-Api-Version''"

definition v2Version :: APIVersion where
  "v2Version = \<lparr>Type = ''registry'', Version = ''2.0''\<rparr>"

record AuthConfig =
  Username :: string
  Password :: string
  IdentityToken :: string

record defaultCredStore =
  config :: AuthConfig

definition Basic :: "defaultCredStore \<Rightarrow> url_t \<Rightarrow> string \<times> string" where
  "Basic scs u = (Username (config scs), Password (config scs))"

definition RefreshToken :: "defaultCredStore \<Rightarrow> url_t \<Rightarrow> string \<Rightarrow> string" where
  "RefreshToken scs u service = IdentityToken (config scs)"

definition SetRefreshToken ::
  "defaultCredStore \<Rightarrow> url_t \<Rightarrow> string \<Rightarrow> string \<Rightarrow> defaultCredStore" where
  "SetRefreshToken scs u service token = scs"

text \<open>
  The challenge manager of the registry client: an object with an identity that
  records the responses added to it.
\<close>

record manager =
  mgr_id :: nat
  recorded :: "response list"

definition NewSimpleManager :: "world \<Rightarrow> manager \<times> world" where
  "NewSimpleManager st =
     (\<lparr>mgr_id = managers st, recorded = []\<rparr>, st\<lparr>managers := Suc (managers st)\<rparr>)"

definition cm_AddResponse :: "env \<Rightarrow> manager \<Rightarrow> response \<Rightarrow> error + manager" where
  "cm_AddResponse e cm resp =
     (case AddResponse_error e resp of
        Some err \<Rightarrow> Inl err
      | None \<Rightarrow> Inr (cm\<lparr>recorded := recorded cm @ [resp]\<rparr>))"

text \<open>The values the factory builds from the registry client's constructors.\<close>

datatype Scope = RepositoryScope string "string list"

record TokenHandlerOptions =
  tho_Transport :: RoundTripper
  Credentials :: defaultCredStore
  Scopes :: "Scope list"
  ClientID :: string
  ForceOAuth :: bool

datatype AuthenticationHandler =
    NewBasicHandler defaultCredStore
  | NewTokenHandlerWithOptions TokenHandlerOptions

datatype RequestModifier = NewAuthorizer manager AuthenticationHandler

datatype auth_transport = NewTransport RoundTripper RequestModifier

text \<open>\<open>strings.HasSuffix\<close>.\<close>

definition HasSuffix :: "string \<Rightarrow> string \<Rightarrow> bool" where
  "HasSuffix s suf =
     (length s \<ge> length suf \<and> drop (length s - length suf) s = suf)"

text \<open>The loop of \<open>ping\<close> over the advertised versions.\<close>

fun ping_versions ::
  "env \<Rightarrow> response \<Rightarrow> APIVersion list \<Rightarrow> world \<Rightarrow> (error + manager) \<times> world" where
  "ping_versions e resp [] st = (Inl (ErrorString ''registry is not v2''), st)"
| "ping_versions e resp (v # vs) st =
     (if v = v2Version
      then (case NewSimpleManager st of (cm, st1) \<Rightarrow>
              (case cm_AddResponse e cm resp of
                 Inl err \<Rightarrow> (Inl (fmt_Errorf ''add response: '' err), st1)
               | Inr cm' \<Rightarrow> (Inr cm', st1)))
      else ping_versions e resp vs st)"

definition ping ::
  "env \<Rightarrow> string \<Rightarrow> RoundTripper \<Rightarrow> world \<Rightarrow> ((error + manager) \<times> world) option" where
  "ping e addr tr st =
     (case Send e ''GET'' (basePingQuery addr)
             [SendTLSTransport tr, SendAcceptedCodes [200, 401]] st of
        None \<Rightarrow> None
      | Some (Inl err, st1) \<Rightarrow> Some (Inl err, st1)
      | Some (Inr resp, st1) \<Rightarrow>
          Some (ping_versions e resp (auth_APIVersions e resp registryVersionHeader) st1))"

definition BasicAuthTransport ::
  "env \<Rightarrow> string \<Rightarrow> string \<Rightarrow> RoundTripper \<Rightarrow> AuthConfig \<Rightarrow> world \<Rightarrow>
   ((error + auth_transport) \<times> world) option" where
  "BasicAuthTransport e addr repo tr authConfig st =
     (case ping e addr tr st of
        None \<Rightarrow> None
      | Some (Inl err, st1) \<Rightarrow> Some (Inl (fmt_Errorf ''ping v2 registry: '' err), st1)
      | Some (Inr cm, st1) \<Rightarrow>
          if Username authConfig \<noteq> '''' \<and> Password authConfig \<noteq> '''' \<and>
             HasSuffix addr ''amazonaws.com''
          then Some (Inr (NewTransport tr
                 (NewAuthorizer cm (NewBasicHandler \<lparr>config = authConfig\<rparr>))), st1)
          else Some (Inr (NewTransport tr
                 (NewAuthorizer cm (NewTokenHandlerWithOptions
                    \<lparr>tho_Transport = tr,
                     Credentials = \<lparr>config = authConfig\<rparr>,
                     Scopes = [RepositoryScope repo [''pull'', ''push'']],
                     ClientID = ''docker'',
                     ForceOAuth = False\<rparr>))), st1))"

section \<open>A scripted world for concrete runs\<close>

text \<open>
  The world where every URL parses (the schemes \<open>http\<close> and \<open>https\<close> are
  recognised), every method is valid, round trips take no time and the \<open>k\<close>-th one
  returns the \<open>k\<close>-th entry of a script (a refused connection beyond its end); the
  registry client reads the versions \<open>vs\<close> from every response and
  \<open>AddResponse\<close> fails with \<open>ae\<close>, if given.
\<close>

definition parse_url :: "string \<Rightarrow> url_t" where
  "parse_url s =
     (if take 7 s = ''http://'' then \<lparr>Scheme = ''http'', Rest = drop 7 s\<rparr>
      else if take 8 s = ''https://'' then \<lparr>Scheme = ''https'', Rest = drop 8 s\<rparr>
      else \<lparr>Scheme = [], Rest = s\<rparr>)"

definition script_env ::
  "(error + raw_response) list \<Rightarrow> APIVersion list \<Rightarrow> error option \<Rightarrow> env" where
  "script_env script vs ae =
     \<lparr>url_Parse = (\<lambda>s. Inr (parse_url s)),
      validMethod = (\<lambda>m. True),
      body_length = (\<lambda>b. case b of None \<Rightarrow> 0 | Some s \<Rightarrow> int (length s)),
      canonical_key = (\<lambda>k. k),
      roundTrip = (\<lambda>c k req. if k < length script then script ! k
                              else Inl (ErrorString ''connection refused'')),
      latency = (\<lambda>k. 0),
      auth_APIVersions = (\<lambda>resp h. vs),
      AddResponse_error = (\<lambda>resp. ae)\<rparr>"

definition answer :: "int \<Rightarrow> string \<Rightarrow> error + raw_response" where
  "answer s b =
     Inr \<lparr>raw_status = s, raw_header = Map.empty, raw_body = b, raw_read_error = None\<rparr>"

definition world0 :: world where
  "world0 =
     \<lparr>now = 0, attempts = 0,
      bodies = (\<lambda>a. \<lparr>content = [], read_error = None, drained = False, closes = 0\<rparr>),
      executed = [], built = 0, slept = [], consults = 0, managers = 0\<rparr>"

definition req0 :: request where
  "req0 = \<lparr>req_id = 0, req_Method = ''GET'', req_URL = \<lparr>Scheme = ''http'', Rest = ''x/y''\<rparr>,
           req_Header = Map.empty, ContentLength = 0, req_Body = None,
           req_Ctx = context_Background\<rparr>"

text \<open>A scripted answer whose body fails to read after the bytes \<open>b\<close>.\<close>

definition broken_answer :: "int \<Rightarrow> string \<Rightarrow> string \<Rightarrow> error + raw_response" where
  "broken_answer s b err =
     Inr \<lparr>raw_status = s, raw_header = Map.empty, raw_body = b, raw_read_error = Some err\<rparr>"

section \<open>Facts about the steps of the sender\<close>

lemma client_Do_effects:
  "client_Do e c req st = (r, st1) \<Longrightarrow>
     attempts st1 = Suc (attempts st) \<and> executed st1 = executed st @ [req_id req] \<and>
     built st1 = built st \<and> consults st1 = consults st \<and> slept st1 = slept st \<and>
     managers st1 = managers st"
  by (auto simp: client_Do_def Let_def split: if_splits sum.splits)

lemma send_iter_break:
  "send_iter e c opts req bo st = (Inl r, st1) \<Longrightarrow>
     attempts st1 = Suc (attempts st) \<and> executed st1 = executed st @ [req_id req] \<and>
     built st1 = built st \<and> managers st1 = managers st \<and>
     (\<exists>w. client_Do e c req st = (r, w))"
  by (auto simp: send_iter_def NextBackOff_def time_Sleep_def split: prod.splits if_splits sum.splits
      dest!: client_Do_effects)

lemma send_iter_continue:
  "send_iter e c opts req bo st = (Inr bo', st1) \<Longrightarrow>
     attempts st1 = Suc (attempts st) \<and> executed st1 = executed st @ [req_id req] \<and>
     built st1 = built st \<and> managers st1 = managers st \<and> bo' = stl bo \<and> shd bo \<noteq> backoff_Stop"
  by (auto simp: send_iter_def NextBackOff_def time_Sleep_def split: prod.splits if_splits sum.splits
      dest!: client_Do_effects)

lemma send_iter_stop:
  "shd bo = backoff_Stop \<Longrightarrow> \<exists>r st1. send_iter e c opts req bo st = (Inl r, st1)"
  by (auto simp: send_iter_def NextBackOff_def split: prod.splits if_splits sum.splits)

lemma send_loop_terminates:
  "bo !! n = backoff_Stop \<Longrightarrow>
   \<exists>r st1. send_loop e c opts req bo st = Some (r, st1) \<and>
      attempts st < attempts st1 \<and> attempts st1 \<le> attempts st + n + 1"
proof (induction n arbitrary: bo st)
  case 0
  then have "shd bo = backoff_Stop" by simp
  from send_iter_stop[OF this] obtain r st1 where
    it: "send_iter e c opts req bo st = (Inl r, st1)" by blast
  from send_iter_break[OF it] have "attempts st1 = Suc (attempts st)" by simp
  with it show ?case by (subst send_loop.simps) simp
next
  case (Suc n)
  obtain x st1 where it: "send_iter e c opts req bo st = (x, st1)" by (cases "send_iter e c opts req bo st")
  show ?case
  proof (cases x)
    case (Inl r)
    with it send_iter_break[of e c opts req bo st r st1]
    show ?thesis by (subst send_loop.simps) simp
  next
    case (Inr bo')
    with it send_iter_continue[of e c opts req bo st bo' st1]
    have a: "attempts st1 = Suc (attempts st)" and b: "bo' = stl bo" by simp_all
    from Suc.prems b have "bo' !! n = backoff_Stop" by simp
    from Suc.IH[OF this, of st1] obtain r st2 where
      "send_loop e c opts req bo' st1 = Some (r, st2)" "attempts st1 < attempts st2"
      "attempts st2 \<le> attempts st1 + n + 1" by blast
    with it Inr a show ?thesis by (subst send_loop.simps) simp
  qed
qed

lemmas option_defs = SendNoop_def SendBody_def SendTimeout_def SendHeaders_def
  SendAcceptedCodes_def SendRedirect_def SendClient_def RetryBackoff_def RetryCodes_def
  SendRetry_def DisableHTTPFallback_def SendTLS_def SendTLSTransport_def SendTransport_def
  SendContext_def applyOptions_def defaultOptions_def

lemmas run_defs = Send_def newRequest_def http_NewRequest_def url_String_def clientOf_def
  send_iter_def client_Do_def shouldRetry_def isRetryable_def retryableCodes_def lookup_def
  NextBackOff_def time_Sleep_def ctx_done_def context_Background_def backoff_Stop_def
  StopBackOff_def WithMaxRetries_def script_env_def parse_url_def answer_def world0_def fmt_Errorf_def
  NewStatusError_def ioutil_ReadAll_def Body_Close_def Header_Set_def

lemma fold_Header_Set:
  "req_id (fold (Header_Set e) hs r) = req_id r \<and>
   ContentLength (fold (Header_Set e) hs r) = ContentLength r \<and>
   req_Ctx (fold (Header_Set e) hs r) = req_Ctx r \<and>
   req_Method (fold (Header_Set e) hs r) = req_Method r \<and>
   req_URL (fold (Header_Set e) hs r) = req_URL r \<and>
   req_Body (fold (Header_Set e) hs r) = req_Body r"
  by (induction hs arbitrary: r) (simp_all add: Header_Set_def)

lemma newRequest_effects:
  "newRequest e method opts st = (r, st1) \<Longrightarrow>
     attempts st1 = attempts st \<and> executed st1 = executed st \<and> managers st1 = managers st \<and>
     built st1 = (case r of Inl err \<Rightarrow> built st | Inr req \<Rightarrow> Suc (built st)) \<and>
     (case r of Inl err \<Rightarrow> True | Inr req \<Rightarrow> req_id req = built st)"
  by (auto simp: newRequest_def http_NewRequest_def Let_def fold_Header_Set split: if_splits sum.splits prod.splits)

lemma WithMaxRetries_stops: "WithMaxRetries b n !! n = backoff_Stop"
  by (simp add: WithMaxRetries_def)

lemma send_loop_terminates_le:
  assumes "k \<le> n" and "bo !! k = backoff_Stop"
  shows "\<exists>r st1. send_loop e c opts req bo st = Some (r, st1) \<and>
      attempts st < attempts st1 \<and> attempts st1 \<le> attempts st + n + 1"
  using send_loop_terminates[OF assms(2), of e c opts req st] assms(1) by fastforce

lemma send_loop_once:
  assumes "shd bo = backoff_Stop"
  shows "\<exists>r st1. send_loop e c opts req bo st = Some (r, st1) \<and> attempts st1 = attempts st + 1"
  using send_loop_terminates[of bo 0 e c opts req st] assms by fastforce

lemma Send_of_loop:
  assumes "url_Parse e rawurl = Inr u"
    and "opts = applyOptions options (defaultOptions u)"
    and "newRequest e method opts st = (Inr req, st0)"
    and "send_loop e (clientOf opts) opts req (backoff (retry opts)) st0 = Some (r, st1)"
  shows "\<exists>r' st2. Send e method rawurl options st = Some (r', st2) \<and> attempts st2 = attempts st1"
  using assms
  by (cases r) (auto simp: Send_def NewStatusError_def Let_def ioutil_ReadAll_def Body_Close_def split: prod.splits)

lemma send_loop_invariant_aux:
  assumes "send_loop e c opts req bo st = Some y"
  shows "executed (snd y) = executed st @ replicate (attempts (snd y) - attempts st) (req_id req) \<and>
         built (snd y) = built st \<and> managers (snd y) = managers st \<and>
         attempts st < attempts (snd y)"
proof (rule send_loop.raw_induct
    [where P = "\<lambda>e c opts req bo st y.
        executed (snd y) = executed st @ replicate (attempts (snd y) - attempts st) (req_id req) \<and>
        built (snd y) = built st \<and> managers (snd y) = managers st \<and>
        attempts st < attempts (snd y)", OF _ assms])
  fix loop :: "env \<Rightarrow> http_Client \<Rightarrow> sendOptions \<Rightarrow> request \<Rightarrow> backoff_t \<Rightarrow> world \<Rightarrow>
     ((error + response) \<times> world) option"
  fix e c opts req bo st y
  assume IH: "\<And>e c opts req bo st y. loop e c opts req bo st = Some y \<Longrightarrow>
        executed (snd y) = executed st @ replicate (attempts (snd y) - attempts st) (req_id req) \<and>
        built (snd y) = built st \<and> managers (snd y) = managers st \<and>
        attempts st < attempts (snd y)"
  assume body: "(case send_iter e c opts req bo st of
        (Inl r, st1) \<Rightarrow> Some (r, st1)
      | (Inr bo', st1) \<Rightarrow> loop e c opts req bo' st1) = Some y"
  obtain x w where it: "send_iter e c opts req bo st = (x, w)"
    by (cases "send_iter e c opts req bo st")
  show "executed (snd y) = executed st @ replicate (attempts (snd y) - attempts st) (req_id req) \<and>
        built (snd y) = built st \<and> managers (snd y) = managers st \<and>
        attempts st < attempts (snd y)"
  proof (cases x)
    case (Inl r)
    with it body have "y = (r, w)" by simp
    with it Inl send_iter_break[of e c opts req bo st r w] show ?thesis by simp
  next
    case (Inr bo')
    with it body have l: "loop e c opts req bo' w = Some y" by simp
    from send_iter_continue[of e c opts req bo st bo' w] it Inr
    have s: "attempts w = Suc (attempts st)" "executed w = executed st @ [req_id req]"
      "built w = built st" "managers w = managers st" by simp_all
    from IH[OF l] have i: "executed (snd y) =
        executed w @ replicate (attempts (snd y) - attempts w) (req_id req)"
      "built (snd y) = built w" "managers (snd y) = managers w"
      "attempts w < attempts (snd y)" by simp_all
    from i(4) s(1) have d: "attempts (snd y) - attempts st = Suc (attempts (snd y) - attempts w)"
      by arith
    from i s d show ?thesis by simp
  qed
qed

lemma send_loop_invariant:
  assumes "send_loop e c opts req bo st = Some (r, st1)"
  shows "executed st1 = executed st @ replicate (attempts st1 - attempts st) (req_id req) \<and>
         built st1 = built st \<and> managers st1 = managers st \<and> attempts st < attempts st1"
  using send_loop_invariant_aux[OF assms] by simp

subsection \<open>Errors and options\<close>

lemma As_StatusError_chain:
  "As_StatusError err = Some se \<longleftrightarrow> StatusErr se \<in> set (unwrap_chain err)"
  by (induction err) auto

lemma acceptedCodes_fold_dom:
  "dom (fold (\<lambda>c m. m(c \<mapsto> True)) cs m) = dom m \<union> set cs"
  by (induction cs arbitrary: m) auto

lemma acceptedCodes_fold_lookup:
  "lookup (fold (\<lambda>c m. m(c \<mapsto> True)) cs m) k \<longleftrightarrow> lookup m k \<or> k \<in> set cs"
  by (induction cs arbitrary: m) (auto simp: lookup_def)

lemma applyOptions_append:
  "applyOptions (xs @ ys) opts = applyOptions ys (applyOptions xs opts)"
  by (simp add: applyOptions_def)

lemma applyOptions_keep:
  "(\<forall>f\<in>set fs. \<forall>opts. acceptedCodes (f opts) = acceptedCodes opts) \<Longrightarrow>
   acceptedCodes (applyOptions fs opts) = acceptedCodes opts"
  by (induction fs arbitrary: opts) (simp_all add: applyOptions_def)

subsection \<open>What \<open>Send\<close> leaves unchanged, and when it returns\<close>

lemma NewStatusError_managers:
  "NewStatusError resp st = (se, w) \<Longrightarrow> managers w = managers st \<and> attempts w = attempts st \<and>
     executed w = executed st \<and> built w = built st \<and> slept w = slept st \<and> now w = now st"
  by (auto simp: NewStatusError_def ioutil_ReadAll_def Body_Close_def Let_def split: if_splits)

lemma Send_managers:
  assumes "Send e method rawurl options st = Some (r, w)"
  shows "managers w = managers st"
proof (cases "url_Parse e rawurl")
  case (Inl err)
  with assms show ?thesis by (simp add: Send_def)
next
  case (Inr u)
  define opts where "opts = applyOptions options (defaultOptions u)"
  obtain x st0 where nr: "newRequest e method opts st = (x, st0)"
    by (cases "newRequest e method opts st")
  note ne = newRequest_effects[OF nr]
  show ?thesis
  proof (cases x)
    case (Inl err)
    with assms Inr nr ne show ?thesis by (simp add: Send_def opts_def Let_def)
  next
    case req: (Inr req)
    from assms Inr nr req obtain y st2 where
      l: "send_loop e (clientOf opts) opts req (backoff (retry opts)) st0 = Some (y, st2)"
      by (auto simp: Send_def opts_def Let_def split: option.splits)
    from send_loop_invariant[OF l] ne have m: "managers st2 = managers st" by simp
    from assms Inr nr req l m show ?thesis
      by (auto simp: Send_def opts_def Let_def split: sum.splits if_splits prod.splits
          dest: NewStatusError_managers)
  qed
qed

lemma Send_Inr_accepted:
  assumes "Send e method rawurl options st = Some (Inr resp, w)"
    and "url_Parse e rawurl = Inr u"
  shows "lookup (acceptedCodes (applyOptions options (defaultOptions u))) (StatusCode resp)"
  using assms
  by (auto simp: Send_def Let_def split: prod.splits sum.splits option.splits if_splits)

lemma Send_Inr_parsed:
  assumes "Send e method rawurl options st = Some (Inr resp, w)"
  shows "\<exists>u. url_Parse e rawurl = Inr u"
  using assms by (cases "url_Parse e rawurl") (auto simp: Send_def)

lemma Send_returns_stop:
  assumes "\<And>u. url_Parse e rawurl = Inr u \<Longrightarrow>
             shd (backoff (retry (applyOptions options (defaultOptions u)))) = backoff_Stop"
  shows "\<exists>r w. Send e method rawurl options st = Some (r, w)"
proof (cases "url_Parse e rawurl")
  case (Inl err)
  then show ?thesis by (simp add: Send_def)
next
  case (Inr u)
  define opts where "opts = applyOptions options (defaultOptions u)"
  obtain x st0 where nr: "newRequest e method opts st = (x, st0)"
    by (cases "newRequest e method opts st")
  show ?thesis
  proof (cases x)
    case (Inl err)
    with Inr nr show ?thesis by (simp add: Send_def opts_def Let_def)
  next
    case req: (Inr req)
    from assms[OF Inr] have "shd (backoff (retry opts)) = backoff_Stop" by (simp add: opts_def)
    from send_loop_once[OF this, of e "clientOf opts" opts req st0] obtain r st1 where
      l: "send_loop e (clientOf opts) opts req (backoff (retry opts)) st0 = Some (r, st1)" by blast
    from Send_of_loop[OF Inr opts_def nr[unfolded req] l] show ?thesis by blast
  qed
qed

subsection \<open>The probe\<close>

lemma ping_options:
  "retry (applyOptions [SendTLSTransport tr, SendAcceptedCodes cs] (defaultOptions u))
     = retry (defaultOptions u) \<and>
   (lookup (acceptedCodes (applyOptions [SendTLSTransport tr, SendAcceptedCodes [200, 401]]
      (defaultOptions u))) s \<longleftrightarrow> s = 200 \<or> s = 401)"
  by (simp add: applyOptions_def SendTLSTransport_def SendAcceptedCodes_def defaultOptions_def
      lookup_def)

lemma ping_returns: "\<exists>r w. ping e addr tr st = Some (r, w)"
proof -
  have "\<exists>r w. Send e ''GET'' (basePingQuery addr)
      [SendTLSTransport tr, SendAcceptedCodes [200, 401]] st = Some (r, w)"
    by (rule Send_returns_stop) (simp add: ping_options, simp add: defaultOptions_def StopBackOff_def)
  then show ?thesis by (auto simp: ping_def split: sum.splits)
qed

lemma ping_versions_nomatch:
  "v2Version \<notin> set vs \<Longrightarrow>
   ping_versions e resp vs st = (Inl (ErrorString ''registry is not v2''), st)"
  by (induction vs) auto

lemma ping_versions_match:
  "v2Version \<in> set vs \<Longrightarrow>
   ping_versions e resp vs st =
     (case AddResponse_error e resp of
        Some err \<Rightarrow> (Inl (fmt_Errorf ''add response: '' err), st\<lparr>managers := Suc (managers st)\<rparr>)
      | None \<Rightarrow> (Inr \<lparr>mgr_id = managers st, recorded = [resp]\<rparr>,
                  st\<lparr>managers := Suc (managers st)\<rparr>))"
  by (induction vs) (auto simp: NewSimpleManager_def cm_AddResponse_def split: option.splits)

lemma HasSuffix_suffix: "HasSuffix s suf \<longleftrightarrow> suffix suf s"
proof
  assume "HasSuffix s suf"
  then have "s = take (length s - length suf) s @ suf"
    by (metis HasSuffix_def append_take_drop_id)
  then show "suffix suf s" by (rule suffixI)
next
  assume "suffix suf s"
  then obtain p where "s = p @ suf" by (auto simp: suffix_def)
  then show "HasSuffix s suf" by (simp add: HasSuffix_def)
qed

lemmas ping_defs = ping_def basePingQuery_def registryVersionHeader_def v2Version_def
  NewSimpleManager_def cm_AddResponse_def

subsection \<open>Response bodies and cancelled contexts\<close>

lemma newRequest_request:
  "newRequest e method opts st = (Inr req, st1) \<Longrightarrow>
     req_Ctx req = ctx opts \<and> now st1 = now st \<and> slept st1 = slept st \<and>
     bodies st1 = bodies st \<and> (body opts = None \<longrightarrow> ContentLength req = 0)"
  by (auto simp: newRequest_def http_NewRequest_def Let_def fold_Header_Set
      split: if_splits sum.splits prod.splits)

lemma client_Do_fresh_body:
  "client_Do e c req st = (Inr resp, w) \<Longrightarrow>
     closes (bodies w (Body resp)) = 0 \<and> \<not> drained (bodies w (Body resp)) \<and>
     Request resp = req \<and> Body resp = attempts st"
  by (auto simp: client_Do_def Let_def split: if_splits sum.splits)

lemma send_iter_break_bodies:
  "send_iter e c opts req bo st = (Inl r, st1) \<Longrightarrow>
     \<exists>w. client_Do e c req st = (r, w) \<and> bodies st1 = bodies w"
  by (auto simp: send_iter_def NextBackOff_def split: prod.splits if_splits sum.splits)

lemma send_loop_last_attempt:
  assumes "send_loop e c opts req bo st = Some y"
  shows "\<exists>st' w. client_Do e c req st' = (fst y, w) \<and> bodies (snd y) = bodies w"
proof (rule send_loop.raw_induct
    [where P = "\<lambda>e c opts req bo st y.
        \<exists>st' w. client_Do e c req st' = (fst y, w) \<and> bodies (snd y) = bodies w", OF _ assms])
  fix loop :: "env \<Rightarrow> http_Client \<Rightarrow> sendOptions \<Rightarrow> request \<Rightarrow> backoff_t \<Rightarrow> world \<Rightarrow>
     ((error + response) \<times> world) option"
  fix e c opts req bo st y
  assume IH: "\<And>e c opts req bo st y. loop e c opts req bo st = Some y \<Longrightarrow>
        \<exists>st' w. client_Do e c req st' = (fst y, w) \<and> bodies (snd y) = bodies w"
  assume body: "(case send_iter e c opts req bo st of
        (Inl r, st1) \<Rightarrow> Some (r, st1)
      | (Inr bo', st1) \<Rightarrow> loop e c opts req bo' st1) = Some y"
  obtain x w where it: "send_iter e c opts req bo st = (x, w)"
    by (cases "send_iter e c opts req bo st")
  show "\<exists>st' w. client_Do e c req st' = (fst y, w) \<and> bodies (snd y) = bodies w"
  proof (cases x)
    case (Inl r)
    with it body have "y = (r, w)" by simp
    with it Inl send_iter_break_bodies[of e c opts req bo st r w] show ?thesis by auto
  next
    case (Inr bo')
    with it body have "loop e c opts req bo' w = Some y" by simp
    then show ?thesis by (rule IH)
  qed
qed

lemma send_loop_response_body:
  assumes "send_loop e c opts req bo st = Some (Inr resp, st2)"
  shows "closes (bodies st2 (Body resp)) = 0 \<and> \<not> drained (bodies st2 (Body resp)) \<and>
         Request resp = req"
  using send_loop_last_attempt[OF assms] by (auto dest: client_Do_fresh_body)

lemma client_Do_cancelled:
  assumes "req_Ctx req = Some tc" and "tc \<le> now st + latency e (attempts st)"
  shows "client_Do e c req st =
           (Inl (ErrorString ''context canceled''),
            st\<lparr>attempts := Suc (attempts st), executed := executed st @ [req_id req],
               now := max (now st) tc\<rparr>)"
  using assms by (simp add: client_Do_def ctx_done_def Let_def)

lemma send_loop_cancelled:
  assumes "req_Ctx req = Some tc" and "tc \<le> now st + latency e (attempts st)"
    and "backoff_Stop \<notin> set (stake n bo)" and "bo !! n = backoff_Stop"
  shows "\<exists>w. send_loop e c opts req bo st = Some (Inl (ErrorString ''context canceled''), w) \<and>
           attempts w = attempts st + n + 1 \<and>
           slept w = slept st @ stake n bo \<and>
           now w = max (now st) tc + sum_list (map nat (stake n bo))"
  using assms(2-4)
proof (induction n arbitrary: bo st)
  case 0
  then have s: "shd bo = backoff_Stop" by simp
  show ?case
    by (subst send_loop.simps)
       (simp add: send_iter_def client_Do_cancelled[OF assms(1) "0.prems"(1)] NextBackOff_def s)
next
  case (Suc n)
  from Suc.prems have d: "shd bo \<noteq> backoff_Stop"
    and r: "backoff_Stop \<notin> set (stake n (stl bo))" "stl bo !! n = backoff_Stop"
    by auto
  let ?st1 = "time_Sleep (shd bo)
     (st\<lparr>attempts := Suc (attempts st), executed := executed st @ [req_id req],
         now := max (now st) tc, consults := Suc (consults st)\<rparr>)"
  have it: "send_iter e c opts req bo st = (Inr (stl bo), ?st1)"
    by (simp add: send_iter_def client_Do_cancelled[OF assms(1) Suc.prems(1)] NextBackOff_def d)
  have t: "tc \<le> now ?st1 + latency e (attempts ?st1)" by (simp add: time_Sleep_def)
  from Suc.IH[OF t r] obtain w where
    w: "send_loop e c opts req (stl bo) ?st1 = Some (Inl (ErrorString ''context canceled''), w)"
    "attempts w = attempts ?st1 + n + 1" "slept w = slept ?st1 @ stake n (stl bo)"
    "now w = max (now ?st1) tc + sum_list (map nat (stake n (stl bo)))" by blast
  have l: "send_loop e c opts req bo st = Some (Inl (ErrorString ''context canceled''), w)"
    by (subst send_loop.simps) (simp add: it w(1))
  from w(2-4) have "attempts w = attempts st + Suc n + 1"
    "slept w = slept st @ stake (Suc n) bo"
    "now w = max (now st) tc + sum_list (map nat (stake (Suc n) bo))"
    by (simp_all add: time_Sleep_def max_def)
  with l show ?case by blast
qed

subsection \<open>A pass of the loop after a transport failure\<close>

lemma send_iter_transport_failure:
  assumes "client_Do e c req st = (Inl x, st1)" and "shd bo \<noteq> backoff_Stop"
  shows "send_iter e c opts req bo st =
           (Inr (stl bo), time_Sleep (shd bo) (st1\<lparr>consults := Suc (consults st1)\<rparr>))"
  using assms by (simp add: send_iter_def NextBackOff_def)

lemma send_loop_stop_now:
  assumes "shd bo = backoff_Stop"
  shows "\<exists>r w. send_loop e c opts req bo st = Some (r, w) \<and>
           attempts w = Suc (attempts st) \<and> slept w = slept st \<and>
           (\<exists>w'. client_Do e c req st = (r, w'))"
proof -
  obtain r w' where d: "client_Do e c req st = (r, w')" by (cases "client_Do e c req st")
  from client_Do_effects[OF d] have f: "attempts w' = Suc (attempts st)" "slept w' = slept st"
    by simp_all
  show ?thesis
    by (subst send_loop.simps)
       (auto simp: send_iter_def d NextBackOff_def assms f split: sum.splits)
qed

lemma Send_of_loop_slept:
  assumes "url_Parse e rawurl = Inr u"
    and "opts = applyOptions options (defaultOptions u)"
    and "newRequest e method opts st = (Inr req, st0)"
    and "send_loop e (clientOf opts) opts req (backoff (retry opts)) st0 = Some (r, st1)"
  shows "\<exists>r' st2. Send e method rawurl options st = Some (r', st2) \<and>
           attempts st2 = attempts st1 \<and> slept st2 = slept st1 \<and>
           (isl r \<longrightarrow> (\<exists>err. r = Inl err \<and> r' = Inl (NetworkErr err))) \<and>
           (\<forall>resp. r = Inr resp \<and> lookup (acceptedCodes opts) (StatusCode resp) \<longrightarrow> r' = Inr resp)"
  using assms
  by (cases r) (auto simp: Send_def NewStatusError_def Let_def ioutil_ReadAll_def Body_Close_def
      split: prod.splits)

section \<open>The claims\<close>

text \<open>
  Claim C1. When the URL parses, the request is built and the loop of \<open>Send\<close> ends
  with a response \<open>resp\<close> (no transport failure on the last attempt), \<open>Send\<close>
  returns a response iff the status of \<open>resp\<close> is in the accepted set of the merged
  options; it then returns \<open>resp\<close> itself, and otherwise a \<open>StatusError\<close> whose
  \<open>Status\<close> is the status of \<open>resp\<close>.
\<close>

theorem Send_success_iff_accepted:
  assumes "url_Parse e rawurl = Inr u"
    and "opts = applyOptions options (defaultOptions u)"
    and "newRequest e method opts st = (Inr req, st1)"
    and "send_loop e (clientOf opts) opts req (backoff (retry opts)) st1 = Some (Inr resp, st2)"
  shows "((\<exists>r w. Send e method rawurl options st = Some (Inr r, w)) \<longleftrightarrow>
            lookup (acceptedCodes opts) (StatusCode resp)) \<and>
         (if lookup (acceptedCodes opts) (StatusCode resp)
          then Send e method rawurl options st = Some (Inr resp, st2)
          else \<exists>se w. Send e method rawurl options st = Some (Inl (StatusErr se), w) \<and>
                 Status se = StatusCode resp)"
  using assms by (auto simp: Send_def NewStatusError_def Let_def split: prod.splits)

theorem Send_success_iff_accepted_witness:
  "\<exists>u req st1 resp st2.
     url_Parse (script_env [answer 401 ''denied''] [] None) ''http://x/y'' = Inr u \<and>
     newRequest (script_env [answer 401 ''denied''] [] None) ''GET''
        (applyOptions [SendAcceptedCodes [200, 401]] (defaultOptions u)) world0 = (Inr req, st1) \<and>
     send_loop (script_env [answer 401 ''denied''] [] None)
        (clientOf (applyOptions [SendAcceptedCodes [200, 401]] (defaultOptions u)))
        (applyOptions [SendAcceptedCodes [200, 401]] (defaultOptions u)) req
        (backoff (retry (applyOptions [SendAcceptedCodes [200, 401]] (defaultOptions u)))) st1
       = Some (Inr resp, st2) \<and>
     StatusCode resp = 401 \<and>
     lookup (acceptedCodes (applyOptions [SendAcceptedCodes [200, 401]] (defaultOptions u))) 401 \<and>
     Send (script_env [answer 401 ''denied''] [] None) ''GET'' ''http://x/y''
        [SendAcceptedCodes [200, 401]] world0 = Some (Inr resp, st2)"
proof -
  let ?e = "script_env [answer 401 ''denied''] [] None"
  let ?u = "\<lparr>Scheme = ''http'', Rest = ''x/y''\<rparr>"
  let ?opts = "applyOptions [SendAcceptedCodes [200, 401]] (defaultOptions ?u)"
  have h1: "url_Parse ?e ''http://x/y'' = Inr ?u" by (simp add: script_env_def parse_url_def)
  obtain req st1 where h3: "newRequest ?e ''GET'' ?opts world0 = (Inr req, st1)"
    by (simp add: option_defs run_defs)
  obtain resp st2 where h4:
    "send_loop ?e (clientOf ?opts) ?opts req (backoff (retry ?opts)) st1 = Some (Inr resp, st2)"
    and h5: "StatusCode resp = 401"
    using h3 by (auto simp add: option_defs run_defs send_loop.simps Let_def)
  have h6: "lookup (acceptedCodes ?opts) 401" by (simp add: option_defs lookup_def)
  from Send_success_iff_accepted [OF h1 refl h3 h4] h5 h6
  have "Send ?e ''GET'' ''http://x/y'' [SendAcceptedCodes [200, 401]] world0 = Some (Inr resp, st2)"
    by simp
  with h1 h3 h4 h5 h6 show ?thesis by blast
qed

text \<open>
  Claim C2, as the code has it. For a response with status \<open>s\<close>, one pass of the loop
  calls \<open>NextBackOff\<close> iff \<open>s\<close> is one of 429, 502, 503, 504 and is not accepted,
  or \<open>s\<close> is one of the caller's extra codes (accepted or not).
\<close>

theorem backoff_consulted_iff:
  assumes "client_Do e c req st = (Inr resp, st1)"
  shows "consults (snd (send_iter e c opts req bo st)) =
           (if (StatusCode resp \<in> retryableCodes \<and> \<not> lookup (acceptedCodes opts) (StatusCode resp)) \<or>
               lookup (extraCodes (retry opts)) (StatusCode resp)
            then Suc (consults st) else consults st)"
  using assms client_Do_effects[OF assms]
  by (auto simp: send_iter_def shouldRetry_def isRetryable_def NextBackOff_def time_Sleep_def)

theorem backoff_consulted_iff_witness:
  "\<exists>resp st1.
     client_Do (script_env [answer 503 ''busy''] [] None) \<lparr>Timeout = 0, CheckRedirect = None, Transport = None\<rparr> req0 world0 = (Inr resp, st1) \<and>
     StatusCode resp = 503 \<and>
     consults (snd (send_iter (script_env [answer 503 ''busy''] [] None) \<lparr>Timeout = 0, CheckRedirect = None, Transport = None\<rparr>
        (defaultOptions \<lparr>Scheme = ''http'', Rest = ''x/y''\<rparr>) req0 StopBackOff world0)) = Suc 0"
proof -
  let ?e = "script_env [answer 503 ''busy''] [] None"
  let ?c = "\<lparr>Timeout = 0, CheckRedirect = None, Transport = None\<rparr>"
  let ?opts = "defaultOptions \<lparr>Scheme = ''http'', Rest = ''x/y''\<rparr>"
  obtain resp st1 where h: "client_Do ?e ?c req0 world0 = (Inr resp, st1)"
    and s: "StatusCode resp = 503"
    by (simp add: run_defs req0_def)
  have "consults (snd (send_iter ?e ?c ?opts req0 StopBackOff world0)) = Suc 0"
    using backoff_consulted_iff [OF h, of ?opts StopBackOff] s
    by (simp add: retryableCodes_def lookup_def defaultOptions_def world0_def)
  with h s show ?thesis by blast
qed

text \<open>
  Claim C2 as stated fails: with 200 accepted and also given to \<open>RetryCodes\<close>, a
  server that always answers 200 is asked four times, the backoff is consulted four
  times and the sender sleeps three times.
\<close>

theorem accepted_status_retried:
  "lookup (acceptedCodes (applyOptions [SendAcceptedCodes [200], SendRetry (sconst 250) [RetryCodes [200]]]
       (defaultOptions \<lparr>Scheme = ''http'', Rest = ''x/y''\<rparr>))) 200 \<and>
   map_option (\<lambda>(r, w). (attempts w, consults w, slept w))
     (Send (script_env [answer 200 ''a'', answer 200 ''b'', answer 200 ''c'', answer 200 ''d''] [] None)
        ''GET'' ''http://x/y'' [SendAcceptedCodes [200], SendRetry (sconst 250) [RetryCodes [200]]] world0)
   = Some (4, 4, [250, 250, 250])"
  by (simp add: option_defs run_defs send_loop.simps Let_def eval_nat_numeral)

text \<open>
  Claim C3. If the backoff of the merged options answers \<open>Stop\<close> at one of its first
  \<open>n + 1\<close> calls (it allows at most \<open>n\<close> retries), \<open>Send\<close> returns after at most
  \<open>n + 1\<close> calls of \<open>client.Do\<close>. With the default retry options, or a backoff
  whose first answer is \<open>Stop\<close>, and a request that could be built, it returns after
  exactly one call, whatever the outcome of that call.
\<close>

theorem Send_attempts_bounded:
  assumes "url_Parse e rawurl = Inr u"
    and "opts = applyOptions options (defaultOptions u)"
  shows "((\<exists>k\<le>n. backoff (retry opts) !! k = backoff_Stop) \<longrightarrow>
            (\<exists>r st1. Send e method rawurl options st = Some (r, st1) \<and>
                      attempts st1 \<le> attempts st + n + 1)) \<and>
         ((retry opts = retry (defaultOptions u) \<or> shd (backoff (retry opts)) = backoff_Stop) \<and>
          (\<exists>req st0. newRequest e method opts st = (Inr req, st0)) \<longrightarrow>
            (\<exists>r st1. Send e method rawurl options st = Some (r, st1) \<and>
                      attempts st1 = attempts st + 1))"
proof (intro conjI impI)
  assume "\<exists>k\<le>n. backoff (retry opts) !! k = backoff_Stop"
  then obtain k where k: "k \<le> n" "backoff (retry opts) !! k = backoff_Stop" by blast
  obtain x st0 where nr: "newRequest e method opts st = (x, st0)"
    by (cases "newRequest e method opts st")
  show "\<exists>r st1. Send e method rawurl options st = Some (r, st1) \<and> attempts st1 \<le> attempts st + n + 1"
  proof (cases x)
    case (Inl err)
    with nr assms newRequest_effects[OF nr] show ?thesis by (simp add: Send_def)
  next
    case (Inr req)
    from send_loop_terminates_le[OF k, of e "clientOf opts" opts req st0] obtain r st1 where
      l: "send_loop e (clientOf opts) opts req (backoff (retry opts)) st0 = Some (r, st1)"
      and b: "attempts st1 \<le> attempts st0 + n + 1" by blast
    from Send_of_loop[OF assms nr[unfolded Inr] l] b newRequest_effects[OF nr]
    show ?thesis by auto
  qed
next
  assume a: "(retry opts = retry (defaultOptions u) \<or> shd (backoff (retry opts)) = backoff_Stop) \<and>
          (\<exists>req st0. newRequest e method opts st = (Inr req, st0))"
  then have s: "shd (backoff (retry opts)) = backoff_Stop"
    by (auto simp: defaultOptions_def StopBackOff_def)
  from a obtain req st0 where nr: "newRequest e method opts st = (Inr req, st0)" by blast
  from send_loop_once[OF s, of e "clientOf opts" opts req st0] obtain r st1 where
    l: "send_loop e (clientOf opts) opts req (backoff (retry opts)) st0 = Some (r, st1)"
    and b: "attempts st1 = attempts st0 + 1" by blast
  from Send_of_loop[OF assms nr l] b newRequest_effects[OF nr]
  show "\<exists>r st1. Send e method rawurl options st = Some (r, st1) \<and> attempts st1 = attempts st + 1"
    by auto
qed

theorem Send_attempts_bounded_witness:
  "url_Parse (script_env [answer 503 ''a'', answer 503 ''b'', answer 503 ''c'', answer 200 ''ok''] [] None) ''http://x/y''
     = Inr \<lparr>Scheme = ''http'', Rest = ''x/y''\<rparr> \<and>
   (\<exists>k\<le>3. backoff (retry (applyOptions [SendRetry (sconst 250) []]
        (defaultOptions \<lparr>Scheme = ''http'', Rest = ''x/y''\<rparr>))) !! k = backoff_Stop) \<and>
   (\<exists>r st1. Send (script_env [answer 503 ''a'', answer 503 ''b'', answer 503 ''c'', answer 200 ''ok''] [] None)
        ''GET'' ''http://x/y'' [SendRetry (sconst 250) []] world0 = Some (r, st1) \<and>
      attempts st1 \<le> attempts world0 + 3 + 1) \<and>
   retry (applyOptions [] (defaultOptions \<lparr>Scheme = ''http'', Rest = ''x/y''\<rparr>))
     = retry (defaultOptions \<lparr>Scheme = ''http'', Rest = ''x/y''\<rparr>) \<and>
   (\<exists>req st0. newRequest (script_env [answer 503 ''a'', answer 503 ''b'', answer 503 ''c'', answer 200 ''ok''] [] None)
        ''GET'' (applyOptions [] (defaultOptions \<lparr>Scheme = ''http'', Rest = ''x/y''\<rparr>)) world0 = (Inr req, st0)) \<and>
   (\<exists>r st1. Send (script_env [answer 503 ''a'', answer 503 ''b'', answer 503 ''c'', answer 200 ''ok''] [] None)
        ''GET'' ''http://x/y'' [] world0 = Some (r, st1) \<and> attempts st1 = attempts world0 + 1)"
proof -
  let ?e = "script_env [answer 503 ''a'', answer 503 ''b'', answer 503 ''c'', answer 200 ''ok''] [] None"
  let ?u = "\<lparr>Scheme = ''http'', Rest = ''x/y''\<rparr>"
  have h1: "url_Parse ?e ''http://x/y'' = Inr ?u" by (simp add: script_env_def parse_url_def)
  have h2: "\<exists>k\<le>3. backoff (retry (applyOptions [SendRetry (sconst 250) []] (defaultOptions ?u))) !! k
      = backoff_Stop"
    by (rule exI[of _ 3]) (simp add: option_defs WithMaxRetries_stops)
  have h3: "retry (applyOptions [] (defaultOptions ?u)) = retry (defaultOptions ?u)"
    by (simp add: applyOptions_def)
  have h4: "\<exists>req st0. newRequest ?e ''GET'' (applyOptions [] (defaultOptions ?u)) world0 = (Inr req, st0)"
    by (simp add: option_defs run_defs)
  from Send_attempts_bounded [OF h1 refl, of 3 "[SendRetry (sconst 250) []]" "''GET''" world0] h2
  have c1: "\<exists>r st1. Send ?e ''GET'' ''http://x/y'' [SendRetry (sconst 250) []] world0 = Some (r, st1) \<and>
      attempts st1 \<le> attempts world0 + 3 + 1" by blast
  from Send_attempts_bounded [OF h1 refl, of 0 "[]" "''GET''" world0] h3 h4
  have c2: "\<exists>r st1. Send ?e ''GET'' ''http://x/y'' [] world0 = Some (r, st1) \<and>
      attempts st1 = attempts world0 + 1" by blast
  from h1 h2 h3 h4 c1 c2 show ?thesis by blast
qed

text \<open>
  Claim C4. After a successful probe, the factory wraps the base transport with the
  Basic handler iff the username and the password are both non-empty and the address
  ends with \<open>amazonaws.com\<close>; in every other case it wraps it with the token
  handler for the scope of the repository with the actions pull and push, the client
  identifier \<open>docker\<close> and \<open>ForceOAuth\<close> off.
\<close>

theorem BasicAuthTransport_selects:
  assumes "ping e addr tr st = Some (Inr cm, st1)"
  shows "\<exists>h. BasicAuthTransport e addr repo tr authConfig st
            = Some (Inr (NewTransport tr (NewAuthorizer cm h)), st1) \<and>
          ((\<exists>cs. h = NewBasicHandler cs) \<longleftrightarrow>
             Username authConfig \<noteq> [] \<and> Password authConfig \<noteq> [] \<and>
             suffix ''amazonaws.com'' addr) \<and>
          (if Username authConfig \<noteq> [] \<and> Password authConfig \<noteq> [] \<and>
              suffix ''amazonaws.com'' addr
           then h = NewBasicHandler \<lparr>config = authConfig\<rparr>
           else h = NewTokenHandlerWithOptions
                  \<lparr>tho_Transport = tr,
                   Credentials = \<lparr>config = authConfig\<rparr>,
                   Scopes = [RepositoryScope repo [''pull'', ''push'']],
                   ClientID = ''docker'',
                   ForceOAuth = False\<rparr>)"
  using assms by (simp add: BasicAuthTransport_def HasSuffix_suffix)

theorem BasicAuthTransport_selects_witness:
  "\<exists>cm st1.
     ping (script_env [answer 401 ''denied''] [v2Version] None) ''a.amazonaws.com''
       (CustomTransport 0) world0 = Some (Inr cm, st1) \<and>
     suffix ''amazonaws.com'' ''a.amazonaws.com'' \<and>
     BasicAuthTransport (script_env [answer 401 ''denied''] [v2Version] None) ''a.amazonaws.com''
       ''team/app'' (CustomTransport 0)
       \<lparr>Username = ''AWS'', Password = ''secret'', IdentityToken = ''''\<rparr> world0
     = Some (Inr (NewTransport (CustomTransport 0) (NewAuthorizer cm
          (NewBasicHandler \<lparr>config = \<lparr>Username = ''AWS'', Password = ''secret'',
                                      IdentityToken = ''''\<rparr>\<rparr>))), st1) \<and>
     BasicAuthTransport (script_env [answer 401 ''denied''] [v2Version] None) ''a.amazonaws.com''
       ''team/app'' (CustomTransport 0)
       \<lparr>Username = ''AWS'', Password = '''', IdentityToken = ''''\<rparr> world0
     = Some (Inr (NewTransport (CustomTransport 0) (NewAuthorizer cm
          (NewTokenHandlerWithOptions
             \<lparr>tho_Transport = CustomTransport 0,
              Credentials = \<lparr>config = \<lparr>Username = ''AWS'', Password = '''',
                                         IdentityToken = ''''\<rparr>\<rparr>,
              Scopes = [RepositoryScope ''team/app'' [''pull'', ''push'']],
              ClientID = ''docker'', ForceOAuth = False\<rparr>))), st1)"
proof -
  let ?e = "script_env [answer 401 ''denied''] [v2Version] None"
  obtain cm st1 where h: "ping ?e ''a.amazonaws.com'' (CustomTransport 0) world0 = Some (Inr cm, st1)"
    by (simp add: ping_defs run_defs option_defs send_loop.simps Let_def)
  have s: "suffix ''amazonaws.com'' ''a.amazonaws.com''"
    by (simp add: HasSuffix_suffix [symmetric] HasSuffix_def)
  from BasicAuthTransport_selects [OF h, of "''team/app''"
      "\<lparr>Username = ''AWS'', Password = ''secret'', IdentityToken = ''''\<rparr>"] s
  have c1: "BasicAuthTransport ?e ''a.amazonaws.com'' ''team/app'' (CustomTransport 0)
       \<lparr>Username = ''AWS'', Password = ''secret'', IdentityToken = ''''\<rparr> world0
     = Some (Inr (NewTransport (CustomTransport 0) (NewAuthorizer cm
          (NewBasicHandler \<lparr>config = \<lparr>Username = ''AWS'', Password = ''secret'',
                                      IdentityToken = ''''\<rparr>\<rparr>))), st1)" by auto
  from BasicAuthTransport_selects [OF h, of "''team/app''"
      "\<lparr>Username = ''AWS'', Password = '''', IdentityToken = ''''\<rparr>"]
  have c2: "BasicAuthTransport ?e ''a.amazonaws.com'' ''team/app'' (CustomTransport 0)
       \<lparr>Username = ''AWS'', Password = '''', IdentityToken = ''''\<rparr> world0
     = Some (Inr (NewTransport (CustomTransport 0) (NewAuthorizer cm
          (NewTokenHandlerWithOptions
             \<lparr>tho_Transport = CustomTransport 0,
              Credentials = \<lparr>config = \<lparr>Username = ''AWS'', Password = '''',
                                         IdentityToken = ''''\<rparr>\<rparr>,
              Scopes = [RepositoryScope ''team/app'' [''pull'', ''push'']],
              ClientID = ''docker'', ForceOAuth = False\<rparr>))), st1)" by auto
  from h s c1 c2 show ?thesis by blast
qed

text \<open>
  Claim C5, as the code has it. The probe accepts the statuses 200 and 401. Given the
  response of the probe request, \<open>ping\<close> succeeds iff one of the advertised versions
  is \<open>registry/2.0\<close> and \<open>AddResponse\<close> accepts the response; it then returns a
  new manager that recorded the response. When no advertised version matches, it fails
  with the error \<open>registry is not v2\<close> and constructs no manager.
\<close>

theorem ping_v2_iff:
  assumes "Send e ''GET'' (basePingQuery addr)
             [SendTLSTransport tr, SendAcceptedCodes [200, 401]] st = Some (Inr resp, st1)"
  shows "StatusCode resp \<in> {200, 401} \<and>
     ((\<exists>cm w. ping e addr tr st = Some (Inr cm, w)) \<longleftrightarrow>
        v2Version \<in> set (auth_APIVersions e resp registryVersionHeader) \<and>
        AddResponse_error e resp = None) \<and>
     (v2Version \<in> set (auth_APIVersions e resp registryVersionHeader) \<and>
      AddResponse_error e resp = None \<longrightarrow>
        ping e addr tr st = Some (Inr \<lparr>mgr_id = managers st, recorded = [resp]\<rparr>,
                                  st1\<lparr>managers := Suc (managers st)\<rparr>)) \<and>
     (v2Version \<notin> set (auth_APIVersions e resp registryVersionHeader) \<longrightarrow>
        ping e addr tr st = Some (Inl (ErrorString ''registry is not v2''), st1) \<and>
        managers st1 = managers st)"
proof -
  let ?vs = "auth_APIVersions e resp registryVersionHeader"
  from Send_Inr_parsed[OF assms] obtain u where u: "url_Parse e (basePingQuery addr) = Inr u"
    by blast
  from Send_Inr_accepted[OF assms u] have s: "StatusCode resp \<in> {200, 401}"
    by (simp add: ping_options)
  have m: "managers st1 = managers st" by (rule Send_managers[OF assms])
  have p: "ping e addr tr st = Some (ping_versions e resp ?vs st1)"
    using assms by (simp add: ping_def)
  show ?thesis
  proof (cases "v2Version \<in> set ?vs")
    case True
    with p s m ping_versions_match[OF True, of e resp st1] show ?thesis
      by (auto split: option.splits)
  next
    case False
    with p s m ping_versions_nomatch[OF False, of e resp st1] show ?thesis by simp
  qed
qed

theorem ping_v2_iff_witness:
  "(\<exists>resp st1.
      Send (script_env [answer 401 ''denied''] [v2Version] None) ''GET'' (basePingQuery ''r.io'')
        [SendTLSTransport (CustomTransport 0), SendAcceptedCodes [200, 401]] world0
        = Some (Inr resp, st1) \<and>
      v2Version \<in> set (auth_APIVersions (script_env [answer 401 ''denied''] [v2Version] None)
                         resp registryVersionHeader) \<and>
      AddResponse_error (script_env [answer 401 ''denied''] [v2Version] None) resp = None \<and>
      ping (script_env [answer 401 ''denied''] [v2Version] None) ''r.io'' (CustomTransport 0) world0
        = Some (Inr \<lparr>mgr_id = managers world0, recorded = [resp]\<rparr>,
                st1\<lparr>managers := Suc (managers world0)\<rparr>)) \<and>
   (\<exists>resp st1.
      Send (script_env [answer 200 ''{}''] [\<lparr>Type = ''registry'', Version = ''1.0''\<rparr>] None)
        ''GET'' (basePingQuery ''r.io'')
        [SendTLSTransport (CustomTransport 0), SendAcceptedCodes [200, 401]] world0
        = Some (Inr resp, st1) \<and>
      v2Version \<notin> set (auth_APIVersions
          (script_env [answer 200 ''{}''] [\<lparr>Type = ''registry'', Version = ''1.0''\<rparr>] None)
          resp registryVersionHeader) \<and>
      ping (script_env [answer 200 ''{}''] [\<lparr>Type = ''registry'', Version = ''1.0''\<rparr>] None)
         ''r.io'' (CustomTransport 0) world0
        = Some (Inl (ErrorString ''registry is not v2''), st1) \<and>
      managers st1 = managers world0)"
proof -
  let ?e1 = "script_env [answer 401 ''denied''] [v2Version] None"
  let ?e2 = "script_env [answer 200 ''{}''] [\<lparr>Type = ''registry'', Version = ''1.0''\<rparr>] None"
  let ?os = "[SendTLSTransport (CustomTransport 0), SendAcceptedCodes [200, 401]]"
  obtain r1 w1 where h1: "Send ?e1 ''GET'' (basePingQuery ''r.io'') ?os world0 = Some (Inr r1, w1)"
    by (simp add: run_defs option_defs basePingQuery_def send_loop.simps Let_def)
  obtain r2 w2 where h2: "Send ?e2 ''GET'' (basePingQuery ''r.io'') ?os world0 = Some (Inr r2, w2)"
    by (simp add: run_defs option_defs basePingQuery_def send_loop.simps Let_def)
  have a1: "v2Version \<in> set (auth_APIVersions ?e1 r1 registryVersionHeader)"
    "AddResponse_error ?e1 r1 = None" by (simp_all add: script_env_def)
  have a2: "v2Version \<notin> set (auth_APIVersions ?e2 r2 registryVersionHeader)"
    by (simp add: script_env_def v2Version_def)
  from ping_v2_iff [OF h1] a1
  have c1: "ping ?e1 ''r.io'' (CustomTransport 0) world0
        = Some (Inr \<lparr>mgr_id = managers world0, recorded = [r1]\<rparr>,
                w1\<lparr>managers := Suc (managers world0)\<rparr>)" by blast
  from ping_v2_iff [OF h2] a2
  have c2: "ping ?e2 ''r.io'' (CustomTransport 0) world0
        = Some (Inl (ErrorString ''registry is not v2''), w2) \<and> managers w2 = managers world0"
    by blast
  from h1 a1 c1 h2 a2 c2 show ?thesis by blast
qed

text \<open>
  Claim C5 as stated fails: the registry advertises \<open>registry/2.0\<close>, but
  \<open>AddResponse\<close> refuses the response, and \<open>ping\<close> fails (after it constructed
  a manager).
\<close>

theorem ping_fails_although_v2:
  "map_option (\<lambda>(r, w). (r, managers w))
     (ping (script_env [answer 401 ''denied''] [v2Version]
              (Some (ErrorString ''missing request reference'')))
        ''r.io'' (CustomTransport 0) world0)
   = Some (Inl (ErrorString ''add response: missing request reference''), 1)"
  by (simp add: ping_defs run_defs option_defs send_loop.simps Let_def)

text \<open>
  Claim C6, as the code has it. \<open>NewStatusError\<close> records the method and the URL of
  the request, the status and the headers of the response; it reads the whole body and
  closes it once. The dump is the whole body, of any length, when the read succeeds,
  and the text \<open>failed to dump response: \<close> followed by the read error otherwise.
  When the loop of \<open>Send\<close> ends with a response, \<open>Send\<close> either returns it with
  its body unread and open (accepted status), or builds the \<open>StatusError\<close> from it,
  after which the body has been read and closed exactly once.
\<close>

theorem StatusError_records_response:
  "(NewStatusError resp st = (se, w) \<longrightarrow>
      Method se = req_Method (Request resp) \<and>
      URL se = url_String (req_URL (Request resp)) \<and>
      Status se = StatusCode resp \<and>
      Header se = resp_Header resp \<and>
      (\<not> drained (bodies st (Body resp)) \<longrightarrow>
         ResponseDump se =
           (case read_error (bodies st (Body resp)) of
              None \<Rightarrow> content (bodies st (Body resp))
            | Some err \<Rightarrow> ''failed to dump response: '' @ err)) \<and>
      closes (bodies w (Body resp)) = Suc (closes (bodies st (Body resp))) \<and>
      drained (bodies w (Body resp)) \<and>
      (\<forall>a. a \<noteq> Body resp \<longrightarrow> bodies w a = bodies st a)) \<and>
   (url_Parse e rawurl = Inr u \<and>
    newRequest e method (applyOptions options (defaultOptions u)) st' = (Inr req, st0) \<and>
    send_loop e (clientOf (applyOptions options (defaultOptions u)))
      (applyOptions options (defaultOptions u)) req
      (backoff (retry (applyOptions options (defaultOptions u)))) st0 = Some (Inr resp', st2) \<longrightarrow>
      (if lookup (acceptedCodes (applyOptions options (defaultOptions u))) (StatusCode resp')
       then Send e method rawurl options st' = Some (Inr resp', st2) \<and>
            closes (bodies st2 (Body resp')) = 0 \<and> \<not> drained (bodies st2 (Body resp'))
       else \<exists>se' w'. Send e method rawurl options st' = Some (Inl (StatusErr se'), w') \<and>
              NewStatusError resp' st2 = (se', w') \<and>
              ResponseDump se' =
                (case read_error (bodies st2 (Body resp')) of
                   None \<Rightarrow> content (bodies st2 (Body resp'))
                 | Some err \<Rightarrow> ''failed to dump response: '' @ err) \<and>
              closes (bodies w' (Body resp')) = 1 \<and> drained (bodies w' (Body resp'))))"
proof (intro conjI impI)
  assume n: "NewStatusError resp st = (se, w)"
  then show "Method se = req_Method (Request resp)"
    "URL se = url_String (req_URL (Request resp))"
    "Status se = StatusCode resp" "Header se = resp_Header resp"
    by (auto simp: NewStatusError_def Let_def split: prod.splits)
  from n show "closes (bodies w (Body resp)) = Suc (closes (bodies st (Body resp)))"
    "drained (bodies w (Body resp))" "\<forall>a. a \<noteq> Body resp \<longrightarrow> bodies w a = bodies st a"
    by (auto simp: NewStatusError_def ioutil_ReadAll_def Body_Close_def Let_def split: if_splits)
  assume "\<not> drained (bodies st (Body resp))"
  with n show "ResponseDump se =
           (case read_error (bodies st (Body resp)) of
              None \<Rightarrow> content (bodies st (Body resp))
            | Some err \<Rightarrow> ''failed to dump response: '' @ err)"
    by (auto simp: NewStatusError_def ioutil_ReadAll_def Let_def)
next
  let ?opts = "applyOptions options (defaultOptions u)"
  assume a: "url_Parse e rawurl = Inr u \<and>
    newRequest e method ?opts st' = (Inr req, st0) \<and>
    send_loop e (clientOf ?opts) ?opts req (backoff (retry ?opts)) st0 = Some (Inr resp', st2)"
  then have l: "send_loop e (clientOf ?opts) ?opts req (backoff (retry ?opts)) st0
      = Some (Inr resp', st2)" by simp
  note b = send_loop_response_body[OF l]
  show "if lookup (acceptedCodes ?opts) (StatusCode resp')
       then Send e method rawurl options st' = Some (Inr resp', st2) \<and>
            closes (bodies st2 (Body resp')) = 0 \<and> \<not> drained (bodies st2 (Body resp'))
       else \<exists>se' w'. Send e method rawurl options st' = Some (Inl (StatusErr se'), w') \<and>
              NewStatusError resp' st2 = (se', w') \<and>
              ResponseDump se' =
                (case read_error (bodies st2 (Body resp')) of
                   None \<Rightarrow> content (bodies st2 (Body resp'))
                 | Some err \<Rightarrow> ''failed to dump response: '' @ err) \<and>
              closes (bodies w' (Body resp')) = 1 \<and> drained (bodies w' (Body resp'))"
  proof (cases "lookup (acceptedCodes ?opts) (StatusCode resp')")
    case True
    with a b show ?thesis by (simp add: Send_def Let_def)
  next
    case False
    obtain se' w' where n: "NewStatusError resp' st2 = (se', w')"
      by (cases "NewStatusError resp' st2")
    from a False n have s: "Send e method rawurl options st' = Some (Inl (StatusErr se'), w')"
      by (simp add: Send_def Let_def)
    from n b have "ResponseDump se' =
                (case read_error (bodies st2 (Body resp')) of
                   None \<Rightarrow> content (bodies st2 (Body resp'))
                 | Some err \<Rightarrow> ''failed to dump response: '' @ err)"
      "closes (bodies w' (Body resp')) = 1" "drained (bodies w' (Body resp'))"
      by (auto simp: NewStatusError_def ioutil_ReadAll_def Body_Close_def Let_def)
    with False s n show ?thesis by simp
  qed
qed

theorem StatusError_records_response_witness:
  "\<exists>req st0 resp st2 se w.
     url_Parse (script_env [answer 404 ''no such manifest''] [] None) ''http://x/y''
       = Inr \<lparr>Scheme = ''http'', Rest = ''x/y''\<rparr> \<and>
     newRequest (script_env [answer 404 ''no such manifest''] [] None) ''GET''
       (applyOptions [] (defaultOptions \<lparr>Scheme = ''http'', Rest = ''x/y''\<rparr>)) world0
       = (Inr req, st0) \<and>
     send_loop (script_env [answer 404 ''no such manifest''] [] None)
       (clientOf (applyOptions [] (defaultOptions \<lparr>Scheme = ''http'', Rest = ''x/y''\<rparr>)))
       (applyOptions [] (defaultOptions \<lparr>Scheme = ''http'', Rest = ''x/y''\<rparr>)) req
       (backoff (retry (applyOptions [] (defaultOptions \<lparr>Scheme = ''http'', Rest = ''x/y''\<rparr>))))
       st0 = Some (Inr resp, st2) \<and>
     \<not> drained (bodies st2 (Body resp)) \<and>
     Send (script_env [answer 404 ''no such manifest''] [] None) ''GET'' ''http://x/y'' [] world0
       = Some (Inl (StatusErr se), w) \<and>
     NewStatusError resp st2 = (se, w) \<and>
     Status se = 404 \<and> ResponseDump se = ''no such manifest'' \<and>
     closes (bodies w (Body resp)) = 1 \<and>
     Suc (Body resp) \<noteq> Body resp \<and> bodies w (Suc (Body resp)) = bodies st2 (Suc (Body resp))"
proof -
  let ?e = "script_env [answer 404 ''no such manifest''] [] None"
  let ?u = "\<lparr>Scheme = ''http'', Rest = ''x/y''\<rparr>"
  let ?opts = "applyOptions [] (defaultOptions ?u)"
  have h1: "url_Parse ?e ''http://x/y'' = Inr ?u" by (simp add: script_env_def parse_url_def)
  obtain req st0 where h2: "newRequest ?e ''GET'' ?opts world0 = (Inr req, st0)"
    by (simp add: option_defs run_defs)
  obtain resp st2 where h3:
    "send_loop ?e (clientOf ?opts) ?opts req (backoff (retry ?opts)) st0 = Some (Inr resp, st2)"
    and s: "StatusCode resp = 404" "content (bodies st2 (Body resp)) = ''no such manifest''"
    "read_error (bodies st2 (Body resp)) = None"
    using h2 by (auto simp add: option_defs run_defs send_loop.simps Let_def)
  have na: "\<not> lookup (acceptedCodes ?opts) (StatusCode resp)"
    by (simp add: s option_defs lookup_def)
  note T = StatusError_records_response [of _ _ _ _ ?e "''http://x/y''" ?u "''GET''" "[]" world0 req st0
      resp st2]
  from T h1 h2 h3 have "if lookup (acceptedCodes ?opts) (StatusCode resp)
       then Send ?e ''GET'' ''http://x/y'' [] world0 = Some (Inr resp, st2) \<and>
            closes (bodies st2 (Body resp)) = 0 \<and> \<not> drained (bodies st2 (Body resp))
       else \<exists>se' w'. Send ?e ''GET'' ''http://x/y'' [] world0 = Some (Inl (StatusErr se'), w') \<and>
              NewStatusError resp st2 = (se', w') \<and>
              ResponseDump se' =
                (case read_error (bodies st2 (Body resp)) of
                   None \<Rightarrow> content (bodies st2 (Body resp))
                 | Some err \<Rightarrow> ''failed to dump response: '' @ err) \<and>
              closes (bodies w' (Body resp)) = 1 \<and> drained (bodies w' (Body resp))"
    by blast
  with na obtain se w where
    c: "Send ?e ''GET'' ''http://x/y'' [] world0 = Some (Inl (StatusErr se), w)"
    "NewStatusError resp st2 = (se, w)"
    "ResponseDump se = (case read_error (bodies st2 (Body resp)) of
                   None \<Rightarrow> content (bodies st2 (Body resp))
                 | Some err \<Rightarrow> ''failed to dump response: '' @ err)"
    "closes (bodies w (Body resp)) = 1"
    by metis
  have d: "\<not> drained (bodies st2 (Body resp))"
    using h3 by (auto dest: send_loop_response_body)
  from StatusError_records_response [of resp st2 se w] c(2)
  have f: "Status se = StatusCode resp"
    "bodies w (Suc (Body resp)) = bodies st2 (Suc (Body resp))" by simp_all
  from h1 h2 h3 d c f s show ?thesis by auto
qed

text \<open>
  Claim C6 as stated fails: when reading the body fails after some bytes, the dump
  holds the read error and none of the bytes received.
\<close>

theorem dump_drops_body_on_read_error:
  "map_option fst
     (Send (script_env [broken_answer 500 ''partial'' ''unexpected EOF''] [] None)
        ''GET'' ''http://x/y'' [] world0)
   = Some (Inl (StatusErr \<lparr>Method = ''GET'', URL = ''http://x/y'', Status = 500,
        Header = Map.empty,
        ResponseDump = ''failed to dump response: unexpected EOF''\<rparr>))"
  by (simp add: run_defs option_defs broken_answer_def send_loop.simps Let_def)

text \<open>
  Claim C7, as the code has it. The default accepted set is exactly \<open>{200}\<close>.
  Options other than \<open>SendAcceptedCodes\<close> leave the accepted set alone, and after
  all options are applied the accepted set is the set of codes given to the last
  \<open>SendAcceptedCodes\<close> option (the default if there is none): it is empty when that
  option was given no codes.
\<close>

theorem acceptedCodes_after_options:
  "dom (acceptedCodes (defaultOptions u)) = {200} \<and>
   lookup (acceptedCodes (defaultOptions u)) 200 \<and>
   ((\<forall>f\<in>set options. \<forall>opts. acceptedCodes (f opts) = acceptedCodes opts) \<longrightarrow>
      acceptedCodes (applyOptions options (defaultOptions u)) = acceptedCodes (defaultOptions u)) \<and>
   ((\<forall>f\<in>set post. \<forall>opts. acceptedCodes (f opts) = acceptedCodes opts) \<longrightarrow>
      dom (acceptedCodes (applyOptions (pre @ SendAcceptedCodes cs # post) (defaultOptions u)))
        = set cs \<and>
      (\<forall>k. lookup (acceptedCodes (applyOptions (pre @ SendAcceptedCodes cs # post)
                (defaultOptions u))) k \<longleftrightarrow> k \<in> set cs)) \<and>
   (f \<in> {SendNoop, SendBody b, SendTimeout t, SendHeaders hs, SendRedirect r, SendClient cl,
          SendRetry bo ros, DisableHTTPFallback, SendTLS cfg, SendTLSTransport tr,
          SendTransport tr, SendContext cx} \<longrightarrow>
      (\<forall>opts. acceptedCodes (f opts) = acceptedCodes opts))"
proof (intro conjI impI)
  show "dom (acceptedCodes (defaultOptions u)) = {200}" by (simp add: defaultOptions_def)
  show "lookup (acceptedCodes (defaultOptions u)) 200" by (simp add: defaultOptions_def lookup_def)
next
  assume "\<forall>f\<in>set options. \<forall>opts. acceptedCodes (f opts) = acceptedCodes opts"
  then show "acceptedCodes (applyOptions options (defaultOptions u)) = acceptedCodes (defaultOptions u)"
    by (rule applyOptions_keep)
next
  assume k: "\<forall>f\<in>set post. \<forall>opts. acceptedCodes (f opts) = acceptedCodes opts"
  have e: "acceptedCodes (applyOptions (pre @ SendAcceptedCodes cs # post) (defaultOptions u))
      = fold (\<lambda>c m. m(c \<mapsto> True)) cs Map.empty"
    using applyOptions_keep[OF k]
    by (simp add: applyOptions_append)
       (simp add: applyOptions_def SendAcceptedCodes_def)
  show "dom (acceptedCodes (applyOptions (pre @ SendAcceptedCodes cs # post) (defaultOptions u)))
        = set cs"
    by (simp add: e acceptedCodes_fold_dom)
  show "\<forall>k. lookup (acceptedCodes (applyOptions (pre @ SendAcceptedCodes cs # post)
                (defaultOptions u))) k \<longleftrightarrow> k \<in> set cs"
    by (simp add: e acceptedCodes_fold_lookup) (simp add: lookup_def)
next
  assume "f \<in> {SendNoop, SendBody b, SendTimeout t, SendHeaders hs, SendRedirect r, SendClient cl,
          SendRetry bo ros, DisableHTTPFallback, SendTLS cfg, SendTLSTransport tr,
          SendTransport tr, SendContext cx}"
  then show "\<forall>opts. acceptedCodes (f opts) = acceptedCodes opts"
    by (auto simp: SendNoop_def SendBody_def SendTimeout_def SendHeaders_def SendRedirect_def
        SendClient_def SendRetry_def DisableHTTPFallback_def SendTLS_def SendTLSTransport_def
        SendTransport_def SendContext_def Let_def split: option.splits)
qed

theorem acceptedCodes_after_options_witness:
  "(\<forall>opts. acceptedCodes (SendTLSTransport (CustomTransport 0) opts) = acceptedCodes opts) \<and>
   dom (acceptedCodes (applyOptions
          ([SendTimeout 5] @ SendAcceptedCodes [200, 401] # [SendTLSTransport (CustomTransport 0)])
          (defaultOptions \<lparr>Scheme = ''http'', Rest = ''x/y''\<rparr>))) = {200, 401} \<and>
   acceptedCodes (applyOptions [SendTimeout 5] (defaultOptions \<lparr>Scheme = ''http'', Rest = ''x/y''\<rparr>))
     = acceptedCodes (defaultOptions \<lparr>Scheme = ''http'', Rest = ''x/y''\<rparr>)"
proof -
  let ?u = "\<lparr>Scheme = ''http'', Rest = ''x/y''\<rparr>"
  note T = acceptedCodes_after_options
    [of ?u "[SendTimeout 5]" "[SendTLSTransport (CustomTransport 0)]" "[SendTimeout 5]"
        "[200, 401]" "SendTimeout 5" "''b''" 5]
  have k: "\<forall>opts. acceptedCodes (SendTLSTransport (CustomTransport 0) opts) = acceptedCodes opts"
    by (simp add: SendTLSTransport_def)
  have k2: "\<forall>opts. acceptedCodes (SendTimeout 5 opts) = acceptedCodes opts"
    using T by blast
  from T k have a: "dom (acceptedCodes (applyOptions
          ([SendTimeout 5] @ SendAcceptedCodes [200, 401] # [SendTLSTransport (CustomTransport 0)])
          (defaultOptions ?u))) = set [200, 401]" by simp
  from T k2 have b: "acceptedCodes (applyOptions [SendTimeout 5] (defaultOptions ?u))
     = acceptedCodes (defaultOptions ?u)" by simp
  from k a b show ?thesis by auto
qed

text \<open>
  Claim C7 as stated fails: \<open>SendAcceptedCodes\<close> without codes leaves the accepted
  set empty.
\<close>

theorem acceptedCodes_can_be_empty:
  "dom (acceptedCodes (applyOptions [SendAcceptedCodes []]
          (defaultOptions \<lparr>Scheme = ''http'', Rest = ''x/y''\<rparr>))) = {}"
  by (simp add: applyOptions_def SendAcceptedCodes_def)

text \<open>
  Claim C8, as the code has it. \<open>Send\<close> builds one request from the merged options
  before the loop, and every attempt, the first and each retry, executes that same
  request object. If no body was supplied, the content length of the request is zero.
\<close>

theorem Send_reuses_request:
  assumes "url_Parse e rawurl = Inr u"
    and "opts = applyOptions options (defaultOptions u)"
    and "newRequest e method opts st = (Inr req, st0)"
    and "Send e method rawurl options st = Some (r, w)"
  shows "built w = Suc (built st) \<and> req_id req = built st \<and>
         attempts st < attempts w \<and>
         executed w = executed st @ replicate (attempts w - attempts st) (req_id req) \<and>
         (body opts = None \<longrightarrow> ContentLength req = 0)"
proof -
  from assms obtain y st2 where
    l: "send_loop e (clientOf opts) opts req (backoff (retry opts)) st0 = Some (y, st2)"
    by (auto simp: Send_def Let_def split: option.splits)
  from assms l have w: "attempts w = attempts st2" "executed w = executed st2" "built w = built st2"
    by (auto simp: Send_def Let_def split: sum.splits if_splits prod.splits
        dest: NewStatusError_managers)
  from send_loop_invariant[OF l] newRequest_effects[OF assms(3)] newRequest_request[OF assms(3)] w
  show ?thesis by simp
qed

theorem Send_reuses_request_witness:
  "\<exists>req st0 r w.
     url_Parse (script_env [answer 503 ''busy'', answer 200 ''ok''] [] None) ''http://x/y''
       = Inr \<lparr>Scheme = ''http'', Rest = ''x/y''\<rparr> \<and>
     newRequest (script_env [answer 503 ''busy'', answer 200 ''ok''] [] None) ''GET''
       (applyOptions [SendRetry (sconst 250) []] (defaultOptions \<lparr>Scheme = ''http'', Rest = ''x/y''\<rparr>))
       world0 = (Inr req, st0) \<and>
     Send (script_env [answer 503 ''busy'', answer 200 ''ok''] [] None) ''GET'' ''http://x/y''
       [SendRetry (sconst 250) []] world0 = Some (r, w) \<and>
     body (applyOptions [SendRetry (sconst 250) []] (defaultOptions \<lparr>Scheme = ''http'', Rest = ''x/y''\<rparr>))
       = None \<and>
     ContentLength req = 0 \<and> built w = 1 \<and> attempts w = 2 \<and>
     executed w = executed world0 @ replicate (attempts w - attempts world0) (req_id req)"
proof -
  let ?e = "script_env [answer 503 ''busy'', answer 200 ''ok''] [] None"
  let ?u = "\<lparr>Scheme = ''http'', Rest = ''x/y''\<rparr>"
  let ?opts = "applyOptions [SendRetry (sconst 250) []] (defaultOptions ?u)"
  have h1: "url_Parse ?e ''http://x/y'' = Inr ?u" by (simp add: script_env_def parse_url_def)
  obtain req st0 where h2: "newRequest ?e ''GET'' ?opts world0 = (Inr req, st0)"
    by (simp add: option_defs run_defs)
  obtain r w where h3: "Send ?e ''GET'' ''http://x/y'' [SendRetry (sconst 250) []] world0 = Some (r, w)"
    and a: "attempts w = 2"
    by (simp add: run_defs option_defs send_loop.simps Let_def eval_nat_numeral)
  have b: "body ?opts = None" by (simp add: option_defs)
  from Send_reuses_request [OF h1 refl h2 h3] b
  have "ContentLength req = 0" "built w = 1"
    "executed w = executed world0 @ replicate (attempts w - attempts world0) (req_id req)"
    by (simp_all add: world0_def)
  with h1 h2 h3 a b show ?thesis by blast
qed

text \<open>
  Claim C8 as stated fails: after a 503 the retry executes the request object of the
  first attempt again; one request was built for two attempts.
\<close>

theorem retry_reuses_request:
  "map_option (\<lambda>(r, w). (attempts w, executed w, built w))
     (Send (script_env [answer 503 ''busy'', answer 200 ''ok''] [] None) ''GET'' ''http://x/y''
        [SendRetry (sconst 250) []] world0)
   = Some (2, [0, 0], 1)"
  by (simp add: run_defs option_defs send_loop.simps Let_def eval_nat_numeral)

text \<open>
  Claim C9, as the code has it. The request carries the caller's context, so once the
  context is done the attempt in flight fails with the context's error, and so does
  every later attempt. The loop itself never looks at the context: after each failed
  attempt it asks the backoff and, unless the answer is \<open>Stop\<close>, sleeps the whole
  duration and tries again. If the backoff first answers \<open>Stop\<close> at its
  \<open>(n + 1)\<close>-th call, \<open>Send\<close> makes \<open>n + 1\<close> attempts, sleeps all \<open>n\<close>
  durations in full and only then returns a \<open>NetworkError\<close>.
\<close>

theorem Send_after_cancellation:
  assumes "url_Parse e rawurl = Inr u"
    and "opts = applyOptions options (defaultOptions u)"
    and "newRequest e method opts st = (Inr req, st0)"
    and "ctx opts = Some tc"
    and "tc \<le> now st + latency e (attempts st)"
    and "backoff_Stop \<notin> set (stake n (backoff (retry opts)))"
    and "backoff (retry opts) !! n = backoff_Stop"
  shows "\<exists>w. Send e method rawurl options st
                = Some (Inl (NetworkErr (ErrorString ''context canceled'')), w) \<and>
              attempts w = attempts st + n + 1 \<and>
              slept w = slept st @ stake n (backoff (retry opts)) \<and>
              now w = max (now st) tc + sum_list (map nat (stake n (backoff (retry opts))))"
proof -
  from newRequest_request[OF assms(3)] newRequest_effects[OF assms(3)] assms(4,5)
  have c: "req_Ctx req = Some tc" "tc \<le> now st0 + latency e (attempts st0)"
    and e: "attempts st0 = attempts st" "slept st0 = slept st" "now st0 = now st"
    by simp_all
  from send_loop_cancelled[OF c assms(6,7), of "clientOf opts" opts] obtain w where
    w: "send_loop e (clientOf opts) opts req (backoff (retry opts)) st0
          = Some (Inl (ErrorString ''context canceled''), w)"
    "attempts w = attempts st0 + n + 1" "slept w = slept st0 @ stake n (backoff (retry opts))"
    "now w = max (now st0) tc + sum_list (map nat (stake n (backoff (retry opts))))" by blast
  from assms(1-3) w(1)
  have "Send e method rawurl options st
          = Some (Inl (NetworkErr (ErrorString ''context canceled'')), w)"
    by (simp add: Send_def Let_def)
  with w(2-4) e show ?thesis by simp
qed

theorem Send_after_cancellation_witness:
  "\<exists>req st0 w.
     url_Parse (script_env [answer 200 ''ok''] [] None) ''http://x/y''
       = Inr \<lparr>Scheme = ''http'', Rest = ''x/y''\<rparr> \<and>
     newRequest (script_env [answer 200 ''ok''] [] None) ''GET''
       (applyOptions [SendContext (Some 0), SendRetry (sconst 250000000) []]
          (defaultOptions \<lparr>Scheme = ''http'', Rest = ''x/y''\<rparr>)) world0 = (Inr req, st0) \<and>
     ctx (applyOptions [SendContext (Some 0), SendRetry (sconst 250000000) []]
          (defaultOptions \<lparr>Scheme = ''http'', Rest = ''x/y''\<rparr>)) = Some 0 \<and>
     0 \<le> now world0 + latency (script_env [answer 200 ''ok''] [] None) (attempts world0) \<and>
     backoff_Stop \<notin> set (stake 3 (backoff (retry
        (applyOptions [SendContext (Some 0), SendRetry (sconst 250000000) []]
          (defaultOptions \<lparr>Scheme = ''http'', Rest = ''x/y''\<rparr>))))) \<and>
     backoff (retry (applyOptions [SendContext (Some 0), SendRetry (sconst 250000000) []]
          (defaultOptions \<lparr>Scheme = ''http'', Rest = ''x/y''\<rparr>))) !! 3 = backoff_Stop \<and>
     Send (script_env [answer 200 ''ok''] [] None) ''GET'' ''http://x/y''
        [SendContext (Some 0), SendRetry (sconst 250000000) []] world0
       = Some (Inl (NetworkErr (ErrorString ''context canceled'')), w) \<and>
     attempts w = 4 \<and> slept w = [250000000, 250000000, 250000000] \<and> now w = 750000000"
proof -
  let ?e = "script_env [answer 200 ''ok''] [] None"
  let ?u = "\<lparr>Scheme = ''http'', Rest = ''x/y''\<rparr>"
  let ?os = "[SendContext (Some 0), SendRetry (sconst 250000000) []]"
  let ?opts = "applyOptions ?os (defaultOptions ?u)"
  have h1: "url_Parse ?e ''http://x/y'' = Inr ?u" by (simp add: script_env_def parse_url_def)
  obtain req st0 where h3: "newRequest ?e ''GET'' ?opts world0 = (Inr req, st0)"
    by (simp add: option_defs run_defs)
  have h4: "ctx ?opts = Some 0" by (simp add: option_defs)
  have h5: "0 \<le> now world0 + latency ?e (attempts world0)" by simp
  have b: "backoff (retry ?opts) = WithMaxRetries (sconst 250000000) 3"
    by (simp add: option_defs)
  have h6: "backoff_Stop \<notin> set (stake 3 (backoff (retry ?opts)))"
    by (simp add: b WithMaxRetries_def backoff_Stop_def numeral_3_eq_3)
  have h7: "backoff (retry ?opts) !! 3 = backoff_Stop"
    by (simp add: b WithMaxRetries_stops)
  have k: "stake 3 (backoff (retry ?opts)) = [250000000, 250000000, 250000000]"
    by (simp add: b WithMaxRetries_def numeral_3_eq_3)
  from Send_after_cancellation [OF h1 refl h3 h4 h5 h6 h7] obtain w where
    "Send ?e ''GET'' ''http://x/y'' ?os world0
       = Some (Inl (NetworkErr (ErrorString ''context canceled'')), w)"
    "attempts w = attempts world0 + 3 + 1"
    "slept w = slept world0 @ stake 3 (backoff (retry ?opts))"
    "now w = max (now world0) 0 + sum_list (map nat (stake 3 (backoff (retry ?opts))))"
    by blast
  then have "Send ?e ''GET'' ''http://x/y'' ?os world0
       = Some (Inl (NetworkErr (ErrorString ''context canceled'')), w) \<and>
     attempts w = 4 \<and> slept w = [250000000, 250000000, 250000000] \<and> now w = 750000000"
    by (simp add: k world0_def)
  with h1 h3 h4 h5 h6 h7 show ?thesis by blast
qed

text \<open>
  Claim C9 as stated fails: with a context that is done before the first attempt and
  the retry policy of \<open>SendRetry\<close>, the loop makes four attempts and sleeps three
  times 250ms before it returns.
\<close>

theorem cancelled_loop_goes_on:
  "map_option (\<lambda>(r, w). (r, attempts w, slept w, now w))
     (Send (script_env [answer 200 ''ok''] [] None) ''GET'' ''http://x/y''
        [SendContext (Some 0), SendRetry (sconst 250000000) []] world0)
   = Some (Inl (NetworkErr (ErrorString ''context canceled'')), 4,
           [250000000, 250000000, 250000000], 750000000)"
  by (simp add: run_defs option_defs send_loop.simps Let_def numeral_3_eq_3)

text \<open>
  Claim C10. \<open>IsRetryable\<close> holds exactly for the errors whose \<open>Unwrap\<close> chain
  holds a \<open>StatusError\<close> with one of the statuses 429, 502, 503, 504; it is false
  for every \<open>NetworkError\<close>. The loop of \<open>Send\<close> nevertheless retries after a
  transport failure: when an attempt fails in the transport and the backoff does not
  answer \<open>Stop\<close>, the loop sleeps and goes on with the next attempt, so every run
  that returns has made at least two attempts; and when the backoff stops at its second
  call, the loop, and \<open>Send\<close> with it, returns after exactly two attempts and one
  sleep.
\<close>

theorem IsRetryable_only_StatusError:
  "(IsRetryable err \<longleftrightarrow>
      (\<exists>se. StatusErr se \<in> set (unwrap_chain err) \<and> Status se \<in> {429, 502, 503, 504})) \<and>
   \<not> IsRetryable (NetworkErr err') \<and>
   (client_Do e c req st = (Inl x, st1) \<and> shd bo \<noteq> backoff_Stop \<longrightarrow>
      send_loop e c opts req bo st =
        send_loop e c opts req (stl bo)
          (time_Sleep (shd bo) (st1\<lparr>consults := Suc (consults st1)\<rparr>)) \<and>
      (\<forall>r w. send_loop e c opts req bo st = Some (r, w) \<longrightarrow> attempts st + 2 \<le> attempts w) \<and>
      (shd (stl bo) = backoff_Stop \<longrightarrow>
         (\<exists>r w. send_loop e c opts req bo st = Some (r, w) \<and>
                 attempts w = attempts st + 2 \<and> slept w = slept st @ [shd bo]))) \<and>
   (url_Parse e' rawurl = Inr u \<and>
    newRequest e' method (applyOptions options (defaultOptions u)) st' = (Inr req', st0) \<and>
    client_Do e' (clientOf (applyOptions options (defaultOptions u))) req' st0 = (Inl x', st1') \<and>
    shd (backoff (retry (applyOptions options (defaultOptions u)))) \<noteq> backoff_Stop \<and>
    shd (stl (backoff (retry (applyOptions options (defaultOptions u))))) = backoff_Stop \<longrightarrow>
      (\<exists>r w. Send e' method rawurl options st' = Some (r, w) \<and>
              attempts w = attempts st' + 2 \<and>
              slept w = slept st' @ [shd (backoff (retry (applyOptions options (defaultOptions u))))]))"
proof (intro conjI)
  show "IsRetryable err \<longleftrightarrow>
      (\<exists>se. StatusErr se \<in> set (unwrap_chain err) \<and> Status se \<in> {429, 502, 503, 504})"
    by (auto simp: IsRetryable_def isRetryable_def retryableCodes_def
        simp flip: As_StatusError_chain split: option.splits)
  show "\<not> IsRetryable (NetworkErr err')" by (simp add: IsRetryable_def)
next
  show "client_Do e c req st = (Inl x, st1) \<and> shd bo \<noteq> backoff_Stop \<longrightarrow>
      send_loop e c opts req bo st =
        send_loop e c opts req (stl bo)
          (time_Sleep (shd bo) (st1\<lparr>consults := Suc (consults st1)\<rparr>)) \<and>
      (\<forall>r w. send_loop e c opts req bo st = Some (r, w) \<longrightarrow> attempts st + 2 \<le> attempts w) \<and>
      (shd (stl bo) = backoff_Stop \<longrightarrow>
         (\<exists>r w. send_loop e c opts req bo st = Some (r, w) \<and>
                 attempts w = attempts st + 2 \<and> slept w = slept st @ [shd bo]))"
  proof (intro impI)
    assume a: "client_Do e c req st = (Inl x, st1) \<and> shd bo \<noteq> backoff_Stop"
    let ?st2 = "time_Sleep (shd bo) (st1\<lparr>consults := Suc (consults st1)\<rparr>)"
    from a have it: "send_iter e c opts req bo st = (Inr (stl bo), ?st2)"
      by (simp add: send_iter_transport_failure)
    have eq: "send_loop e c opts req bo st = send_loop e c opts req (stl bo) ?st2"
      by (subst send_loop.simps) (simp add: it)
    from a client_Do_effects[of e c req st "Inl x" st1]
    have f: "attempts ?st2 = Suc (attempts st)" "slept ?st2 = slept st @ [shd bo]"
      by (simp_all add: time_Sleep_def)
    have lb: "\<forall>r w. send_loop e c opts req bo st = Some (r, w) \<longrightarrow> attempts st + 2 \<le> attempts w"
    proof (intro allI impI)
      fix r w assume "send_loop e c opts req bo st = Some (r, w)"
      with eq have "send_loop e c opts req (stl bo) ?st2 = Some (r, w)" by simp
      from send_loop_invariant[OF this] f show "attempts st + 2 \<le> attempts w" by simp
    qed
    have tot: "shd (stl bo) = backoff_Stop \<longrightarrow>
         (\<exists>r w. send_loop e c opts req bo st = Some (r, w) \<and>
                 attempts w = attempts st + 2 \<and> slept w = slept st @ [shd bo])"
    proof
      assume "shd (stl bo) = backoff_Stop"
      from send_loop_stop_now[OF this, of e c opts req ?st2] f eq
      show "\<exists>r w. send_loop e c opts req bo st = Some (r, w) \<and>
                 attempts w = attempts st + 2 \<and> slept w = slept st @ [shd bo]"
        by auto
    qed
    from eq lb tot show "send_loop e c opts req bo st =
        send_loop e c opts req (stl bo) ?st2 \<and>
      (\<forall>r w. send_loop e c opts req bo st = Some (r, w) \<longrightarrow> attempts st + 2 \<le> attempts w) \<and>
      (shd (stl bo) = backoff_Stop \<longrightarrow>
         (\<exists>r w. send_loop e c opts req bo st = Some (r, w) \<and>
                 attempts w = attempts st + 2 \<and> slept w = slept st @ [shd bo]))"
      by blast
  qed
next
  let ?opts = "applyOptions options (defaultOptions u)"
  show "url_Parse e' rawurl = Inr u \<and>
    newRequest e' method ?opts st' = (Inr req', st0) \<and>
    client_Do e' (clientOf ?opts) req' st0 = (Inl x', st1') \<and>
    shd (backoff (retry ?opts)) \<noteq> backoff_Stop \<and>
    shd (stl (backoff (retry ?opts))) = backoff_Stop \<longrightarrow>
      (\<exists>r w. Send e' method rawurl options st' = Some (r, w) \<and>
              attempts w = attempts st' + 2 \<and>
              slept w = slept st' @ [shd (backoff (retry ?opts))])"
  proof
    assume a: "url_Parse e' rawurl = Inr u \<and>
      newRequest e' method ?opts st' = (Inr req', st0) \<and>
      client_Do e' (clientOf ?opts) req' st0 = (Inl x', st1') \<and>
      shd (backoff (retry ?opts)) \<noteq> backoff_Stop \<and>
      shd (stl (backoff (retry ?opts))) = backoff_Stop"
    let ?bo = "backoff (retry ?opts)"
    let ?st2 = "time_Sleep (shd ?bo) (st1'\<lparr>consults := Suc (consults st1')\<rparr>)"
    from a have it: "send_iter e' (clientOf ?opts) ?opts req' ?bo st0 = (Inr (stl ?bo), ?st2)"
      by (simp add: send_iter_transport_failure)
    have eq: "send_loop e' (clientOf ?opts) ?opts req' ?bo st0
        = send_loop e' (clientOf ?opts) ?opts req' (stl ?bo) ?st2"
      by (subst send_loop.simps) (simp add: it)
    from a client_Do_effects[of e' "clientOf ?opts" req' st0 "Inl x'" st1']
    have f: "attempts ?st2 = Suc (attempts st0)" "slept ?st2 = slept st0 @ [shd ?bo]"
      by (simp_all add: time_Sleep_def)
    from a have "shd (stl ?bo) = backoff_Stop" by simp
    from send_loop_stop_now[OF this, of e' "clientOf ?opts" ?opts req' ?st2] eq f
    obtain r w where l: "send_loop e' (clientOf ?opts) ?opts req' ?bo st0 = Some (r, w)"
      and g: "attempts w = attempts st0 + 2" "slept w = slept st0 @ [shd ?bo]"
      by auto
    from a have u: "url_Parse e' rawurl = Inr u"
      and nr: "newRequest e' method ?opts st' = (Inr req', st0)" by simp_all
    from newRequest_effects[OF nr] newRequest_request[OF nr]
    have h: "attempts st0 = attempts st'" "slept st0 = slept st'" by simp_all
    from Send_of_loop_slept[OF u refl nr l] g h
    show "\<exists>r w. Send e' method rawurl options st' = Some (r, w) \<and>
              attempts w = attempts st' + 2 \<and> slept w = slept st' @ [shd ?bo]"
      by auto
  qed
qed

theorem IsRetryable_only_StatusError_witness:
  "IsRetryable (Wrapper ''push failed''
      (StatusErr \<lparr>Method = ''PUT'', URL = ''http://x/y'', Status = 503, Header = Map.empty,
                  ResponseDump = ''busy''\<rparr>)) \<and>
   \<not> IsRetryable (NetworkErr (StatusErr \<lparr>Method = ''PUT'', URL = ''http://x/y'', Status = 503,
                  Header = Map.empty, ResponseDump = ''busy''\<rparr>)) \<and>
   (\<exists>req st0 x st1 r w r' w'.
      url_Parse (script_env [Inl (ErrorString ''connection reset''), answer 200 ''ok''] [] None)
        ''http://x/y'' = Inr \<lparr>Scheme = ''http'', Rest = ''x/y''\<rparr> \<and>
      newRequest (script_env [Inl (ErrorString ''connection reset''), answer 200 ''ok''] [] None)
        ''GET''
        (applyOptions [SendRetry (sconst 250) [RetryBackoff (250 ## StopBackOff)]]
           (defaultOptions \<lparr>Scheme = ''http'', Rest = ''x/y''\<rparr>)) world0 = (Inr req, st0) \<and>
      client_Do (script_env [Inl (ErrorString ''connection reset''), answer 200 ''ok''] [] None)
        (clientOf (applyOptions [SendRetry (sconst 250) [RetryBackoff (250 ## StopBackOff)]]
           (defaultOptions \<lparr>Scheme = ''http'', Rest = ''x/y''\<rparr>))) req st0 = (Inl x, st1) \<and>
      shd (backoff (retry (applyOptions [SendRetry (sconst 250) [RetryBackoff (250 ## StopBackOff)]]
           (defaultOptions \<lparr>Scheme = ''http'', Rest = ''x/y''\<rparr>)))) \<noteq> backoff_Stop \<and>
      shd (stl (backoff (retry (applyOptions
           [SendRetry (sconst 250) [RetryBackoff (250 ## StopBackOff)]]
           (defaultOptions \<lparr>Scheme = ''http'', Rest = ''x/y''\<rparr>))))) = backoff_Stop \<and>
      send_loop (script_env [Inl (ErrorString ''connection reset''), answer 200 ''ok''] [] None)
        (clientOf (applyOptions [SendRetry (sconst 250) [RetryBackoff (250 ## StopBackOff)]]
           (defaultOptions \<lparr>Scheme = ''http'', Rest = ''x/y''\<rparr>)))
        (applyOptions [SendRetry (sconst 250) [RetryBackoff (250 ## StopBackOff)]]
           (defaultOptions \<lparr>Scheme = ''http'', Rest = ''x/y''\<rparr>)) req
        (backoff (retry (applyOptions [SendRetry (sconst 250) [RetryBackoff (250 ## StopBackOff)]]
           (defaultOptions \<lparr>Scheme = ''http'', Rest = ''x/y''\<rparr>)))) st0 = Some (r, w) \<and>
      attempts st0 + 2 \<le> attempts w \<and>
      Send (script_env [Inl (ErrorString ''connection reset''), answer 200 ''ok''] [] None)
        ''GET'' ''http://x/y'' [SendRetry (sconst 250) [RetryBackoff (250 ## StopBackOff)]] world0
        = Some (r', w') \<and>
      attempts w' = attempts world0 + 2 \<and> slept w' = slept world0 @ [250])"
proof -
  let ?se = "\<lparr>Method = ''PUT'', URL = ''http://x/y'', Status = 503, Header = Map.empty,
                  ResponseDump = ''busy''\<rparr>"
  let ?e = "script_env [Inl (ErrorString ''connection reset''), answer 200 ''ok''] [] None"
  let ?u = "\<lparr>Scheme = ''http'', Rest = ''x/y''\<rparr>"
  let ?os = "[SendRetry (sconst 250) [RetryBackoff (250 ## StopBackOff)]]"
  let ?opts = "applyOptions ?os (defaultOptions ?u)"
  let ?bo = "backoff (retry ?opts)"
  note T = IsRetryable_only_StatusError
  have a: "IsRetryable (Wrapper ''push failed'' (StatusErr ?se))"
    using T [of "Wrapper ''push failed'' (StatusErr ?se)"] by simp
  have b: "\<not> IsRetryable (NetworkErr (StatusErr ?se))" using T by blast
  have h1: "url_Parse ?e ''http://x/y'' = Inr ?u" by (simp add: script_env_def parse_url_def)
  obtain req st0 where h2: "newRequest ?e ''GET'' ?opts world0 = (Inr req, st0)"
    by (simp add: option_defs run_defs)
  have at0: "attempts st0 = 0" "req_Ctx req = None"
    using h2 by (auto simp add: option_defs run_defs fold_Header_Set)
  obtain x st1 where h3: "client_Do ?e (clientOf ?opts) req st0 = (Inl x, st1)"
    by (simp add: client_Do_def at0 ctx_done_def script_env_def Let_def)
  have bo: "?bo = 250 ## StopBackOff" by (simp add: option_defs)
  have h4: "shd ?bo \<noteq> backoff_Stop" by (simp add: option_defs backoff_Stop_def)
  have h5: "shd (stl ?bo) = backoff_Stop" by (simp add: option_defs StopBackOff_def)
  note L = T [of _ _ ?e "clientOf ?opts" req st0 x st1 ?bo ?opts]
  from L h3 h4 h5 obtain r w where
    l: "send_loop ?e (clientOf ?opts) ?opts req ?bo st0 = Some (r, w)" by blast
  from L h3 h4 l have lb: "attempts st0 + 2 \<le> attempts w" by blast
  note S = T [of _ _ _ _ _ _ _ _ _ _ ?e "''http://x/y''" ?u "''GET''" ?os world0 req st0 x st1]
  from S h1 h2 h3 h4 h5 obtain r' w' where
    s: "Send ?e ''GET'' ''http://x/y'' ?os world0 = Some (r', w')"
    "attempts w' = attempts world0 + 2" "slept w' = slept world0 @ [shd ?bo]" by blast
  from s(3) have s3: "slept w' = slept world0 @ [250]" by (simp add: bo)
  from a b h1 h2 h3 h4 h5 l lb s(1,2) s3 show ?thesis by blast
qed

end
